theory Spec2Isabelle
  imports Complex_Main "HOL-Library.Sublist" "HOL-Library.Monad_Syntax"
begin

section \<open>Poses: 4x4 and 3x3 matrices\<close>

text \<open>
  The poses handled by \<^verbatim>\<open>System.cc\<close> are \<^verbatim>\<open>cv::Mat\<close> values of size 4x4 (type
  \<^verbatim>\<open>CV_32F\<close>); the export code cuts a 3x3 rotation block and a 3x1 translation column out
  of them. The dimensions are fixed in the types below. The entries are idealised as real
  numbers: rounding of 32-bit floats is outside this model.
\<close>

datatype vec3 = Vec3 (x0: real) (x1: real) (x2: real)

datatype mat3 = Mat3 (r0: vec3) (r1: vec3) (r2: vec3)

datatype vec4 = Vec4 (v0: real) (v1: real) (v2: real) (v3: real)

datatype cvMat4 = Mat4 (row0: vec4) (row1: vec4) (row2: vec4) (row3: vec4)

definition dot4 :: "vec4 \<Rightarrow> vec4 \<Rightarrow> real" where
  "dot4 a b = v0 a * v0 b + v1 a * v1 b + v2 a * v2 b + v3 a * v3 b"

definition col0 :: "cvMat4 \<Rightarrow> vec4" where
  "col0 M = Vec4 (v0 (row0 M)) (v0 (row1 M)) (v0 (row2 M)) (v0 (row3 M))"

definition col1 :: "cvMat4 \<Rightarrow> vec4" where
  "col1 M = Vec4 (v1 (row0 M)) (v1 (row1 M)) (v1 (row2 M)) (v1 (row3 M))"

definition col2 :: "cvMat4 \<Rightarrow> vec4" where
  "col2 M = Vec4 (v2 (row0 M)) (v2 (row1 M)) (v2 (row2 M)) (v2 (row3 M))"

definition col3 :: "cvMat4 \<Rightarrow> vec4" where
  "col3 M = Vec4 (v3 (row0 M)) (v3 (row1 M)) (v3 (row2 M)) (v3 (row3 M))"

definition row_times :: "vec4 \<Rightarrow> cvMat4 \<Rightarrow> vec4" where
  "row_times r M = Vec4 (dot4 r (col0 M)) (dot4 r (col1 M)) (dot4 r (col2 M)) (dot4 r (col3 M))"

text \<open>\<^verbatim>\<open>cv::Mat::eye(4,4,CV_32F)\<close> is \<open>1\<close> and the matrix product \<^verbatim>\<open>A*B\<close> is \<open>A * B\<close>.\<close>

instantiation cvMat4 :: monoid_mult
begin

definition one_cvMat4 :: cvMat4 where
  "one_cvMat4 = Mat4 (Vec4 1 0 0 0) (Vec4 0 1 0 0) (Vec4 0 0 1 0) (Vec4 0 0 0 1)"

definition times_cvMat4 :: "cvMat4 \<Rightarrow> cvMat4 \<Rightarrow> cvMat4" where
  "times_cvMat4 A B =
     Mat4 (row_times (row0 A) B) (row_times (row1 A) B) (row_times (row2 A) B) (row_times (row3 A) B)"

instance
proof
  fix a b c :: cvMat4
  show "a * b * c = a * (b * c)"
    by (simp add: times_cvMat4_def row_times_def dot4_def col0_def col1_def col2_def col3_def
        algebra_simps)
  show "1 * a = a"
    by (simp add: times_cvMat4_def one_cvMat4_def row_times_def dot4_def
        col0_def col1_def col2_def col3_def)
  show "a * 1 = a"
    by (simp add: times_cvMat4_def one_cvMat4_def row_times_def dot4_def
        col0_def col1_def col2_def col3_def)
qed

end

text \<open>\<^verbatim>\<open>M.rowRange(0,3).colRange(0,3)\<close>: the upper left 3x3 block.\<close>

definition rowRange_colRange_0_3 :: "cvMat4 \<Rightarrow> mat3" where
  "rowRange_colRange_0_3 M =
     Mat3 (Vec3 (v0 (row0 M)) (v1 (row0 M)) (v2 (row0 M)))
          (Vec3 (v0 (row1 M)) (v1 (row1 M)) (v2 (row1 M)))
          (Vec3 (v0 (row2 M)) (v1 (row2 M)) (v2 (row2 M)))"

text \<open>\<^verbatim>\<open>M.rowRange(0,3).col(3)\<close>: the first three entries of the last column.\<close>

definition rowRange_0_3_col_3 :: "cvMat4 \<Rightarrow> vec3" where
  "rowRange_0_3_col_3 M = Vec3 (v3 (row0 M)) (v3 (row1 M)) (v3 (row2 M))"

text \<open>\<^verbatim>\<open>R.t()\<close>: the transpose.\<close>

definition t3 :: "mat3 \<Rightarrow> mat3" where
  "t3 R =
     Mat3 (Vec3 (x0 (r0 R)) (x0 (r1 R)) (x0 (r2 R)))
          (Vec3 (x1 (r0 R)) (x1 (r1 R)) (x1 (r2 R)))
          (Vec3 (x2 (r0 R)) (x2 (r1 R)) (x2 (r2 R)))"

definition dot3 :: "vec3 \<Rightarrow> vec3 \<Rightarrow> real" where
  "dot3 a b = x0 a * x0 b + x1 a * x1 b + x2 a * x2 b"

definition mat3_vec :: "mat3 \<Rightarrow> vec3 \<Rightarrow> vec3" where
  "mat3_vec R v = Vec3 (dot3 (r0 R) v) (dot3 (r1 R) v) (dot3 (r2 R) v)"

definition neg3 :: "vec3 \<Rightarrow> vec3" where
  "neg3 v = Vec3 (- x0 v) (- x1 v) (- x2 v)"

definition mat3_mul :: "mat3 \<Rightarrow> mat3 \<Rightarrow> mat3" where
  "mat3_mul A B =
     t3 (Mat3 (mat3_vec A (r0 (t3 B))) (mat3_vec A (r1 (t3 B))) (mat3_vec A (r2 (t3 B))))"

definition eye3 :: mat3 where
  "eye3 = Mat3 (Vec3 1 0 0) (Vec3 0 1 0) (Vec3 0 0 1)"

text \<open>The 4x4 transform \<open>[R t; 0 0 0 1]\<close> with rotation block \<open>R\<close> and translation \<open>t\<close>.\<close>

definition transform_of :: "mat3 \<Rightarrow> vec3 \<Rightarrow> cvMat4" where
  "transform_of R t =
     Mat4 (Vec4 (x0 (r0 R)) (x1 (r0 R)) (x2 (r0 R)) (x0 t))
          (Vec4 (x0 (r1 R)) (x1 (r1 R)) (x2 (r1 R)) (x1 t))
          (Vec4 (x0 (r2 R)) (x1 (r2 R)) (x2 (r2 R)) (x2 t))
          (Vec4 0 0 0 1)"

text \<open>A rigid transform: last row \<open>0 0 0 1\<close> and an orthonormal rotation block.\<close>

definition rigid :: "cvMat4 \<Rightarrow> bool" where
  "rigid M \<longleftrightarrow>
     row3 M = Vec4 0 0 0 1 \<and>
     mat3_mul (t3 (rowRange_colRange_0_3 M)) (rowRange_colRange_0_3 M) = eye3"

section \<open>Data model\<close>

datatype eSensor = MONOCULAR | STEREO | RGBD

text \<open>
  Modelled from the spec: the enumeration \<^verbatim>\<open>Tracking::eTrackingState\<close> is declared in
  \<^verbatim>\<open>Tracking.h\<close>, which is not among the sources at hand. The spec lists its members as NotReady,
  NoImagesYet, NotInitialized, Ok, Lost; \<^verbatim>\<open>System.cc\<close> stores the state as an \<^verbatim>\<open>int\<close> and
  compares it with the literals 2 and 3, the codes of Ok and Lost.
\<close>

datatype eTrackingState = SYSTEM_NOT_READY | NO_IMAGES_YET | NOT_INITIALIZED | OK | LOST

fun eTrackingState_code :: "eTrackingState \<Rightarrow> int" where
  "eTrackingState_code SYSTEM_NOT_READY = - 1"
| "eTrackingState_code NO_IMAGES_YET = 0"
| "eTrackingState_code NOT_INITIALIZED = 1"
| "eTrackingState_code OK = 2"
| "eTrackingState_code LOST = 3"

text \<open>
  A keyframe as \<^verbatim>\<open>System.cc\<close> reads it: the public members \<^verbatim>\<open>mnId\<close>, \<^verbatim>\<open>mnFrameId\<close>,
  \<^verbatim>\<open>mTimeStamp\<close>, \<^verbatim>\<open>mTcp\<close> and the values returned by the getters \<^verbatim>\<open>GetPose\<close>,
  \<^verbatim>\<open>GetPoseInverse\<close>, \<^verbatim>\<open>GetRotation\<close>, \<^verbatim>\<open>GetCameraCenter\<close>, \<^verbatim>\<open>isBad\<close>, \<^verbatim>\<open>GetParent\<close>
  (the class itself is not among the sources at hand, so each getter's result is a field). The parent
  pointer of the spanning tree is \<^verbatim>\<open>NULL\<close> (\<open>None\<close>) at the root.
\<close>

datatype KeyFrame = KeyFrame
  (mnId: nat) (mnFrameId: nat) (mTimeStamp: real)
  (GetPose: cvMat4) (GetPoseInverse: cvMat4) (GetRotation: mat3) (GetCameraCenter: vec3)
  (mTcp: cvMat4) (isBad: bool) (GetParent: "KeyFrame option")

record ORB_Map =
  GetAllKeyFrames :: "KeyFrame list"
  GetLastBigChangeIdx :: int

datatype ORBVocabulary = ORBVocabulary (words: "nat list")

record KeyFrameDatabase =
  mpVoc :: "ORBVocabulary option"
  mvInvertedFile :: "nat list list"

type_synonym Image = "nat list list"
type_synonym MapPoint = nat
type_synonym KeyPoint = "real \<times> real"
type_synonym quaternion = "real \<times> real \<times> real \<times> real"

text \<open>
  The tracking engine as \<^verbatim>\<open>System.cc\<close> reads and writes it: its public members. The four
  lists are the trajectory log.
\<close>

record Tracking =
  mState :: int
  frameId :: int
  mCurrentFrame_mvpMapPoints :: "MapPoint list"
  mCurrentFrame_mvKeysUn :: "KeyPoint list"
  mlRelativeFramePoses :: "cvMat4 list"
  mlpReferences :: "KeyFrame list"
  mlFrameTimes :: "real list"
  mlbLost :: "bool list"

text \<open>
  What the orchestrator does to the outside: console output, sleeping, and the calls it
  makes into the workers, in program order.
\<close>

datatype event =
    Cout string
  | Cerr string
  | sleep_for_microseconds nat
  | LocalMapping_RequestStop
  | LocalMapping_Release
  | LocalMapping_RequestFinish
  | LoopClosing_RequestFinish
  | Viewer_RequestFinish
  | Viewer_RequestStop
  | Viewer_Release
  | Tracking_InformOnlyTracking bool
  | Tracking_Reset
  | Tracking_ResetAfterLoaded
  | Tracking_GrabImageStereo real
  | Tracking_GrabImageRGBD real
  | Tracking_GrabImageMonocular real
  | pangolin_BindToContext string
  | KeyFrameDatabase_SetORBvocabulary
  | KeyFrame_SetORBvocabulary nat
  | KeyFrame_ComputeBoW nat
  | new_FrameDrawer bool
  | new_MapDrawer string
  | new_Tracking string eSensor bool
  | new_LocalMapping bool
  | thread_LocalMapping_Run
  | new_LoopClosing bool
  | thread_LoopClosing_Run
  | new_Viewer string bool
  | thread_Viewer_Run
  | Tracking_SetViewer
  | Tracking_SetLocalMapper
  | Tracking_SetLoopClosing
  | LocalMapping_SetTracker
  | LocalMapping_SetLoopCloser
  | LoopClosing_SetTracker
  | LoopClosing_SetLocalMapper

text \<open>
  The members of \<^verbatim>\<open>class System\<close> that \<^verbatim>\<open>System.cc\<close> uses. \<open>mpViewer\<close> is true when the
  pointer is not \<^verbatim>\<open>NULL\<close>. \<open>events\<close> is not a member: it records what the object has done.
\<close>

record System =
  mSensor :: eSensor
  mpVocabulary :: ORBVocabulary
  mpKeyFrameDatabase :: KeyFrameDatabase
  mpMap :: ORB_Map
  mpTracker :: Tracking
  mpViewer :: bool
  mbReset :: bool
  mbResetAndLoad :: bool
  mbActivateLocalizationMode :: bool
  mbDeactivateLocalizationMode :: bool
  mTrackingState :: int
  mTrackedMapPoints :: "MapPoint list"
  mTrackedKeyPointsUn :: "KeyPoint list"
  mapfile :: string
  events :: "event list"

text \<open>
  Files: a binary archive is the sequence of objects written to it, a trajectory file is
  its lines. A TUM line holds the timestamp, the camera centre and the quaternion; a
  KITTI line holds the rows of \<open>[Rwc | twc]\<close>.
\<close>

datatype serialized = ser_Map ORB_Map | ser_KeyFrameDatabase KeyFrameDatabase

datatype line = TUM_line real vec3 quaternion | KITTI_line mat3 vec3

datatype file_content = Archive "serialized list" | Text_file "line list"

text \<open>
  The state of the process outside any \<^verbatim>\<open>System\<close> object: the file system, the static
  \<^verbatim>\<open>Frame::nNextId\<close>, and the function-static \<^verbatim>\<open>n\<close> of \<^verbatim>\<open>System::MapChanged\<close>.
\<close>

record World =
  files :: "string \<rightharpoonup> file_content"
  Frame_nNextId :: nat
  MapChanged_n :: int

text \<open>
  At process start \<^verbatim>\<open>static int n=0\<close> holds zero; the initial value of \<^verbatim>\<open>Frame::nNextId\<close>
  is set in \<^verbatim>\<open>Frame.cc\<close> (not among the sources at hand) and is a parameter.
\<close>

definition process_start :: "(string \<rightharpoonup> file_content) \<Rightarrow> nat \<Rightarrow> World" where
  "process_start fs nid = \<lparr>files = fs, Frame_nNextId = nid, MapChanged_n = 0\<rparr>"

text \<open>
  The answers of the outside to one call of the orchestrator. Each polled predicate is a
  function of the number of polls already made by the loop that polls it. The methods of
  the tracking engine are not among the sources at hand: what they do to its public members is a
  parameter. So are opening files, parsing the vocabulary and \<^verbatim>\<open>Converter::toQuaternion\<close>.
  The workers are taken not to call back into the orchestrator while it calls them.
\<close>

record env =
  LocalMapping_isStopped :: "nat \<Rightarrow> bool"
  LocalMapping_isFinished :: "nat \<Rightarrow> bool"
  LoopClosing_isFinished :: "nat \<Rightarrow> bool"
  LoopClosing_isRunningGBA :: "nat \<Rightarrow> bool"
  Viewer_isFinished :: "nat \<Rightarrow> bool"
  Viewer_isStopped :: "nat \<Rightarrow> bool"
  ofstream_opens :: "string \<Rightarrow> bool"
  FileStorage_isOpened :: "string \<Rightarrow> bool"
  loadFromTextFile :: "string \<Rightarrow> ORBVocabulary option"
  loadFromBinaryFile :: "string \<Rightarrow> ORBVocabulary option"
  Tracking_ctor :: "string \<Rightarrow> eSensor \<Rightarrow> bool \<Rightarrow> Tracking"
  InformOnlyTracking :: "bool \<Rightarrow> Tracking \<Rightarrow> Tracking"
  Reset_Tracking :: "Tracking \<Rightarrow> Tracking"
  ResetAfterLoaded :: "Tracking \<Rightarrow> Tracking"
  GrabImageStereo :: "Image \<Rightarrow> Image \<Rightarrow> real \<Rightarrow> Tracking \<Rightarrow> cvMat4 option \<times> Tracking"
  GrabImageRGBD :: "Image \<Rightarrow> Image \<Rightarrow> real \<Rightarrow> Tracking \<Rightarrow> cvMat4 option \<times> Tracking"
  GrabImageMonocular :: "Image \<Rightarrow> real \<Rightarrow> Tracking \<Rightarrow> cvMat4 option \<times> Tracking"
  toQuaternion :: "mat3 \<Rightarrow> quaternion"

text \<open>
  How a call ends: it returns a value and a state, or the process is terminated by
  \<^verbatim>\<open>exit(-1)\<close>, or the behaviour is undefined (an element read past the end of a container,
  a \<^verbatim>\<open>NULL\<close> pointer dereferenced, an exception nobody catches). A call that never returns
  is \<open>None\<close> in the functions below that poll.
\<close>

datatype ('r, 's) outcome = Returned 'r 's | Exited 's | Undefined_Behaviour

definition emit :: "event \<Rightarrow> System \<Rightarrow> System" where
  "emit e s = s\<lparr>events := events s @ [e]\<rparr>"

text \<open>
  \<^verbatim>\<open>while(!stopped()) std::this_thread::sleep_for(std::chrono::microseconds(us));\<close>
  where \<open>k\<close> counts the polls made so far.
\<close>

partial_function (option) sleep_until :: "(nat \<Rightarrow> bool) \<Rightarrow> nat \<Rightarrow> nat \<Rightarrow> System \<Rightarrow> System option" where
  "sleep_until stopped us k s =
     (if stopped k then Some s
      else sleep_until stopped us (Suc k) (emit (sleep_for_microseconds us) s))"

section \<open>File name suffixes\<close>

text \<open>
  \<^verbatim>\<open>std::string::find(suffix, pos)\<close>: the lowest index \<open>i \<ge> pos\<close> at which \<open>sfx\<close> occurs in
  \<open>str\<close>, \<open>None\<close> for \<^verbatim>\<open>npos\<close>.
\<close>

definition string_find :: "string \<Rightarrow> string \<Rightarrow> nat \<Rightarrow> nat option" where
  "string_find str sfx pos =
     find (\<lambda>i. i + length sfx \<le> length str \<and> take (length sfx) (drop i str) = sfx)
       [pos ..< Suc (length str)]"

text \<open>
  \<^verbatim>\<open>str.size() - sfx.size()\<close> is computed in \<^verbatim>\<open>std::size_t\<close> (64 bits here) and wraps
  around when the sfx is longer than the string.
\<close>

definition has_suffix :: "string \<Rightarrow> string \<Rightarrow> bool" where
  "has_suffix str sfx =
     (let index = string_find str sfx ((2 ^ 64 + length str - length sfx) mod 2 ^ 64)
      in index \<noteq> None)"

section \<open>Requests and queries\<close>

definition ActivateLocalizationMode :: "System \<Rightarrow> System" where
  "ActivateLocalizationMode s = s\<lparr>mbActivateLocalizationMode := True\<rparr>"

definition DeactivateLocalizationMode :: "System \<Rightarrow> System" where
  "DeactivateLocalizationMode s = s\<lparr>mbDeactivateLocalizationMode := True\<rparr>"

text \<open>
  \<^verbatim>\<open>MapChanged\<close> compares the map's index with the function-static \<open>n\<close>, which belongs to
  the process and not to the object. Both are \<^verbatim>\<open>int\<close>; they are only compared and copied.
\<close>

definition MapChanged :: "World \<Rightarrow> System \<Rightarrow> bool \<times> World" where
  "MapChanged w s =
     (let curn = GetLastBigChangeIdx (mpMap s) in
      if MapChanged_n w < curn then (True, w\<lparr>MapChanged_n := curn\<rparr>)
      else (False, w))"

definition Reset :: "System \<Rightarrow> System" where
  "Reset s = s\<lparr>mbReset := True, mpTracker := (mpTracker s)\<lparr>frameId := 0\<rparr>\<rparr>"

definition GetTrackingState :: "System \<Rightarrow> int" where
  "GetTrackingState s = mTrackingState s"

definition GetKeyFrames :: "System \<Rightarrow> KeyFrame list" where
  "GetKeyFrames s = GetAllKeyFrames (mpMap s)"

section \<open>Ingestion\<close>

definition call_Tracking :: "event \<Rightarrow> (Tracking \<Rightarrow> Tracking) \<Rightarrow> System \<Rightarrow> System" where
  "call_Tracking ev f s = (emit ev s)\<lparr>mpTracker := f (mpTracker s)\<rparr>"

text \<open>
  The block \<^verbatim>\<open>// Check mode change\<close>, the same text in \<^verbatim>\<open>TrackStereo\<close>, \<^verbatim>\<open>TrackRGBD\<close> and
  \<^verbatim>\<open>TrackMonocular\<close>, except that \<^verbatim>\<open>TrackMonocular\<close> first prints a message in the
  activation branch (\<open>announce\<close>).
\<close>

definition Check_mode_change :: "env \<Rightarrow> event list \<Rightarrow> System \<Rightarrow> System option" where
  "Check_mode_change e announce s = do {
     s1 \<leftarrow> (if mbActivateLocalizationMode s then do {
              s' \<leftarrow> sleep_until (LocalMapping_isStopped e) 1000 0
                     (emit LocalMapping_RequestStop (s\<lparr>events := events s @ announce\<rparr>));
              Some ((call_Tracking (Tracking_InformOnlyTracking True) (InformOnlyTracking e True) s')
                      \<lparr>mbActivateLocalizationMode := False\<rparr>)
            }
            else Some s);
     Some (if mbDeactivateLocalizationMode s1
           then (emit LocalMapping_Release
                  (call_Tracking (Tracking_InformOnlyTracking False) (InformOnlyTracking e False) s1))
                  \<lparr>mbDeactivateLocalizationMode := False\<rparr>
           else s1)
   }"

text \<open>The block \<^verbatim>\<open>// Check reset\<close>.\<close>

definition Check_reset :: "env \<Rightarrow> System \<Rightarrow> System" where
  "Check_reset e s =
     (if mbReset s then (call_Tracking Tracking_Reset (Reset_Tracking e) s)\<lparr>mbReset := False\<rparr>
      else s)"

text \<open>The block \<^verbatim>\<open>// Check reset and load\<close>, present in \<^verbatim>\<open>TrackMonocular\<close> only.\<close>

definition Check_reset_and_load :: "env \<Rightarrow> System \<Rightarrow> System" where
  "Check_reset_and_load e s =
     (if mbResetAndLoad s
      then (call_Tracking Tracking_ResetAfterLoaded (ResetAfterLoaded e) s)\<lparr>mbResetAndLoad := False\<rparr>
      else s)"

text \<open>The snapshot taken under \<^verbatim>\<open>mMutexState\<close> after the frame has been tracked.\<close>

definition snapshot :: "System \<Rightarrow> System" where
  "snapshot s =
     s\<lparr>mTrackingState := mState (mpTracker s),
       mTrackedMapPoints := mCurrentFrame_mvpMapPoints (mpTracker s),
       mTrackedKeyPointsUn := mCurrentFrame_mvKeysUn (mpTracker s)\<rparr>"

definition TrackStereo ::
  "env \<Rightarrow> Image \<Rightarrow> Image \<Rightarrow> real \<Rightarrow> System \<Rightarrow> (cvMat4 option, System) outcome option" where
  "TrackStereo e imLeft imRight timestamp s =
     (if mSensor s \<noteq> STEREO
      then Some (Exited (emit (Cerr ''ERROR: you called TrackStereo but input sensor was not set to STEREO.'') s))
      else do {
        s1 \<leftarrow> Check_mode_change e [] s;
        let s2 = Check_reset e s1;
        let r = GrabImageStereo e imLeft imRight timestamp (mpTracker s2);
        let s3 = (emit (Tracking_GrabImageStereo timestamp) s2)\<lparr>mpTracker := snd r\<rparr>;
        Some (Returned (fst r) (snapshot s3))
      })"

definition TrackRGBD ::
  "env \<Rightarrow> Image \<Rightarrow> Image \<Rightarrow> real \<Rightarrow> System \<Rightarrow> (cvMat4 option, System) outcome option" where
  "TrackRGBD e im depthmap timestamp s =
     (if mSensor s \<noteq> RGBD
      then Some (Exited (emit (Cerr ''ERROR: you called TrackRGBD but input sensor was not set to RGBD.'') s))
      else do {
        s1 \<leftarrow> Check_mode_change e [] s;
        let s2 = Check_reset e s1;
        let r = GrabImageRGBD e im depthmap timestamp (mpTracker s2);
        let s3 = (emit (Tracking_GrabImageRGBD timestamp) s2)\<lparr>mpTracker := snd r\<rparr>;
        Some (Returned (fst r) (snapshot s3))
      })"

definition TrackMonocular ::
  "env \<Rightarrow> Image \<Rightarrow> real \<Rightarrow> System \<Rightarrow> (cvMat4 option, System) outcome option" where
  "TrackMonocular e im timestamp s =
     (if mSensor s \<noteq> MONOCULAR
      then Some (Exited (emit (Cerr ''ERROR: you called TrackMonocular but input sensor was not set to Monocular.'') s))
      else do {
        s1 \<leftarrow> Check_mode_change e [Cout ''Localization mode started''] s;
        let s2 = Check_reset e s1;
        let s2' = Check_reset_and_load e s2;
        let r = GrabImageMonocular e im timestamp (mpTracker s2');
        let s3 = (emit (Tracking_GrabImageMonocular timestamp) s2')\<lparr>mpTracker := snd r\<rparr>;
        Some (Returned (fst r) (snapshot s3))
      })"

section \<open>Shutdown\<close>

definition Shutdown :: "env \<Rightarrow> System \<Rightarrow> System option" where
  "Shutdown e s = do {
     let s1 = emit LoopClosing_RequestFinish (emit LocalMapping_RequestFinish s);
     s2 \<leftarrow> (if mpViewer s1
            then sleep_until (Viewer_isFinished e) 5000 0 (emit Viewer_RequestFinish s1)
            else Some s1);
     s3 \<leftarrow> sleep_until
            (\<lambda>k. \<not> (\<not> LocalMapping_isFinished e k \<or> \<not> LoopClosing_isFinished e k
                      \<or> LoopClosing_isRunningGBA e k))
            5000 0 s2;
     Some (if mpViewer s3 then emit (pangolin_BindToContext ''ORB-SLAM2: Map Viewer'') s3 else s3)
   }"

section \<open>Map persistence\<close>

definition SaveMap :: "env \<Rightarrow> string \<Rightarrow> World \<Rightarrow> System \<Rightarrow> (unit, World \<times> System) outcome option" where
  "SaveMap e filename w s =
     (if mTrackingState s = 3 \<or> mTrackingState s = 2
      then do {
        s1 \<leftarrow> sleep_until (LocalMapping_isStopped e) 3000 0
               (emit LocalMapping_RequestStop (emit (Cout ''Pause the local mapper to save a map'') s));
        if \<not> ofstream_opens e filename
        then Some (Exited (w, emit (Cerr (''Cannot Write to Mapfile: '' @ filename)) s1))
        else do {
          let s2 = emit (Cout (''Saving Mapfile: '' @ filename)) s1;
          let w' = w\<lparr>files := (files w)(filename \<mapsto>
                      Archive [ser_Map (mpMap s2), ser_KeyFrameDatabase (mpKeyFrameDatabase s2)])\<rparr>;
          let s3 = emit (Cout '' ... done'') s2;
          Some (Returned () (w', emit LocalMapping_Release s3))
        }
      }
      else Some (Returned () (w, emit (Cout ''ORB-SLAM not initialised. Map not saved.'') s)))"

definition SaveManual :: "env \<Rightarrow> string \<Rightarrow> World \<Rightarrow> System \<Rightarrow> (unit, World \<times> System) outcome option" where
  "SaveManual e strMapFile w s =
     (let s1 = (if has_suffix strMapFile ''.bin'' then s\<lparr>mapfile := strMapFile\<rparr> else s)
      in SaveMap e (mapfile s1) w s1)"

text \<open>
  The loop over the loaded keyframes: each gets the vocabulary and its bag of words, and
  \<open>mnFrameId\<close> (the local variable) ends as the largest \<^verbatim>\<open>mnFrameId\<close> seen, starting from 0.
\<close>

fun reconstruct_loop :: "KeyFrame list \<Rightarrow> nat \<Rightarrow> System \<Rightarrow> nat \<times> System" where
  "reconstruct_loop [] mnFrameId_local s = (mnFrameId_local, s)"
| "reconstruct_loop (it # vpKFS) mnFrameId_local s =
     reconstruct_loop vpKFS
       (if mnFrameId it > mnFrameId_local then mnFrameId it else mnFrameId_local)
       (emit (KeyFrame_ComputeBoW (mnId it)) (emit (KeyFrame_SetORBvocabulary (mnId it)) s))"

text \<open>
  What \<^verbatim>\<open>LoadMap\<close> and \<^verbatim>\<open>LoadMapDuring\<close> do once the stream is open (the two functions
  have the same text there): read the Map, then the index, from the archive; bind the
  vocabulary; walk the keyframes; assign \<^verbatim>\<open>Frame::nNextId\<close>. An archive that does not start
  with a Map followed by an index makes the reader throw, and nothing catches it.
\<close>

definition deserialize :: "file_content \<Rightarrow> World \<Rightarrow> System \<Rightarrow> (World \<times> System) option" where
  "deserialize content w s =
     (case content of
        Archive (ser_Map m # ser_KeyFrameDatabase db # rest) \<Rightarrow>
          (let s1 = emit (Cout (''Loading Mapfile: '' @ mapfile s)) s;
               s2 = s1\<lparr>mpMap := m, mpKeyFrameDatabase := db\<rparr>;
               s3 = (emit KeyFrameDatabase_SetORBvocabulary s2)
                      \<lparr>mpKeyFrameDatabase := (mpKeyFrameDatabase s2)\<lparr>mpVoc := Some (mpVocabulary s2)\<rparr>\<rparr>;
               s4 = emit (Cout ''Map Reconstructing'') (emit (Cout '' ...done'') s3);
               vpKFS = GetAllKeyFrames (mpMap s4);
               r = reconstruct_loop vpKFS 0 s4;
               w' = w\<lparr>Frame_nNextId := fst r\<rparr>
           in Some (w', emit (Cout '' ...done'') (snd r)))
      | _ \<Rightarrow> None)"

definition LoadMap :: "string \<Rightarrow> World \<Rightarrow> System \<Rightarrow> (bool, World \<times> System) outcome" where
  "LoadMap filename w s =
     (case files w filename of
        None \<Rightarrow>
          Returned False
            (w, emit (Cerr (''Cannot Open Mapfile: '' @ mapfile s @ '' , You need create it first!'')) s)
      | Some content \<Rightarrow>
          (case deserialize content w s of
             None \<Rightarrow> Undefined_Behaviour
           | Some ws \<Rightarrow> Returned True ws))"

definition LoadMapDuring :: "env \<Rightarrow> string \<Rightarrow> World \<Rightarrow> System \<Rightarrow> (unit, World \<times> System) outcome option" where
  "LoadMapDuring e filename w s = do {
     s1 \<leftarrow> sleep_until (LocalMapping_isStopped e) 3000 0 (emit LocalMapping_RequestStop s);
     s2 \<leftarrow> (if mpViewer s1
            then sleep_until (Viewer_isStopped e) 3000 0 (emit Viewer_RequestStop s1)
            else Some s1);
     (case files w filename of
        None \<Rightarrow>
          Some (Returned ()
            (w, emit (Cerr (''Cannot Open Mapfile: '' @ mapfile s2 @ '' , You need create it first!'')) s2))
      | Some content \<Rightarrow>
          (case deserialize content w s2 of
             None \<Rightarrow> Some Undefined_Behaviour
           | Some (w', s3) \<Rightarrow>
               (let s4 = emit LocalMapping_Release s3
                in Some (Returned () (w', if mpViewer s4 then emit Viewer_Release s4 else s4)))))
   }"

definition ResetAndLoad :: "env \<Rightarrow> string \<Rightarrow> World \<Rightarrow> System \<Rightarrow> (unit, World \<times> System) outcome option" where
  "ResetAndLoad e strMapFile w s =
     (let s1 = s\<lparr>mbResetAndLoad := True\<rparr>;
          s2 = (if has_suffix strMapFile ''.bin'' then s1\<lparr>mapfile := strMapFile\<rparr> else s1)
      in if mapfile s2 \<noteq> []
         then LoadMapDuring e (mapfile s2) w s2
         else Some (Returned () (w, emit (Cout ''No map to load, incorrect file name'') s2)))"

section \<open>Construction\<close>

text \<open>
  Modelled from the spec: the constructors of \<^verbatim>\<open>Map\<close> and \<^verbatim>\<open>KeyFrameDatabase\<close> are not part
  of the sources at hand. The spec has the orchestrator "create an empty Map and index":
  no keyframes, change generation zero, an index bound to the vocabulary and holding nothing.
\<close>

definition new_Map :: ORB_Map where
  "new_Map = \<lparr>GetAllKeyFrames = [], GetLastBigChangeIdx = 0\<rparr>"

definition new_KeyFrameDatabase :: "ORBVocabulary \<Rightarrow> KeyFrameDatabase" where
  "new_KeyFrameDatabase voc = \<lparr>mpVoc = Some voc, mvInvertedFile = []\<rparr>"

text \<open>
  Loading the vocabulary: the method is chosen by the extension of the file name, and
  \<open>None\<close> stands for \<^verbatim>\<open>bVocLoad == false\<close>.
\<close>

definition load_vocabulary :: "env \<Rightarrow> string \<Rightarrow> ORBVocabulary option" where
  "load_vocabulary e strVocFile =
     (if has_suffix strVocFile ''.txt'' then loadFromTextFile e strVocFile
      else if has_suffix strVocFile ''.bin'' then loadFromBinaryFile e strVocFile
      else None)"

text \<open>
  The constructor writes over the raw storage of the object: \<open>raw\<close> holds the indeterminate
  values of the members that neither the initialiser list nor the body sets
  (\<^verbatim>\<open>mTrackingState\<close> among them). The strings and vectors are default-constructed empty.
\<close>

definition System_ctor ::
  "env \<Rightarrow> System \<Rightarrow> string \<Rightarrow> string \<Rightarrow> eSensor \<Rightarrow> bool \<Rightarrow> string \<Rightarrow> World
    \<Rightarrow> (unit, World \<times> System) outcome" where
  "System_ctor e raw strVocFile strSettingsFile sensor bUseViewer strMapFile w =
     (let s0 = raw\<lparr>mSensor := sensor, mpViewer := False, mbReset := False, mbResetAndLoad := False,
                   mbActivateLocalizationMode := False, mbDeactivateLocalizationMode := False,
                   mTrackedMapPoints := [], mTrackedKeyPointsUn := [], mapfile := [], events := []\<rparr>
      in
      if \<not> FileStorage_isOpened e strSettingsFile
      then Exited (w, emit (Cerr (''Failed to open settings file at: '' @ strSettingsFile)) s0)
      else
        (case load_vocabulary e strVocFile of
           None \<Rightarrow>
             Exited (w, emit (Cerr (''Falied to open at: '' @ strVocFile))
                          (emit (Cerr ''Wrong path to vocabulary. '') s0))
         | Some voc \<Rightarrow>
             (let s1 = s0\<lparr>mpVocabulary := voc\<rparr>;
                  s2 = (if has_suffix strMapFile ''.bin'' then s1\<lparr>mapfile := strMapFile\<rparr> else s1)
              in
              case (if mapfile s2 \<noteq> [] then LoadMap (mapfile s2) w s2 else Returned False (w, s2)) of
                Undefined_Behaviour \<Rightarrow> Undefined_Behaviour
              | Exited x \<Rightarrow> Exited x
              | Returned loaded (w', s3) \<Rightarrow>
                  (let bReuseMap = loaded;
                       s4 = (if loaded then s3
                             else s3\<lparr>mpKeyFrameDatabase := new_KeyFrameDatabase (mpVocabulary s3),
                                     mpMap := new_Map\<rparr>);
                       s5 = emit (new_MapDrawer strSettingsFile) (emit (new_FrameDrawer bReuseMap) s4);
                       s6 = (emit (new_Tracking strSettingsFile (mSensor s5) bReuseMap) s5)
                              \<lparr>mpTracker := Tracking_ctor e strSettingsFile (mSensor s5) bReuseMap\<rparr>;
                       s7 = emit thread_LocalMapping_Run
                              (emit (new_LocalMapping (mSensor s6 = MONOCULAR)) s6);
                       s8 = emit thread_LoopClosing_Run
                              (emit (new_LoopClosing (mSensor s7 \<noteq> MONOCULAR)) s7);
                       s9 = (if bUseViewer
                             then (emit Tracking_SetViewer
                                     (emit thread_Viewer_Run
                                       (emit (new_Viewer strSettingsFile False) s8)))
                                     \<lparr>mpViewer := True\<rparr>
                             else s8);
                       s10 = emit Tracking_SetLoopClosing (emit Tracking_SetLocalMapper s9);
                       s11 = emit LocalMapping_SetLoopCloser (emit LocalMapping_SetTracker s10);
                       s12 = emit LoopClosing_SetLocalMapper (emit LoopClosing_SetTracker s11)
                   in Returned () (w', s12)))))"

section \<open>Trajectory export\<close>

text \<open>
  The loop \<^verbatim>\<open>while(pKF->isBad()) { Trw = Trw*pKF->mTcp; pKF = pKF->GetParent(); }\<close>.
  At a bad root the next test dereferences \<^verbatim>\<open>NULL\<close>: \<open>None\<close>.
\<close>

function traverse_spanning_tree :: "cvMat4 \<Rightarrow> KeyFrame \<Rightarrow> (cvMat4 \<times> KeyFrame) option" where
  "traverse_spanning_tree Trw pKF =
     (if isBad pKF
      then (case GetParent pKF of
              None \<Rightarrow> None
            | Some parent \<Rightarrow> traverse_spanning_tree (Trw * mTcp pKF) parent)
      else Some (Trw, pKF))"
  by pat_completeness auto
termination
proof (relation "measure (\<lambda>(Trw, pKF). size pKF)")
  show "wf (measure (\<lambda>(Trw :: cvMat4, pKF :: KeyFrame). size pKF))"
    by simp
next
  fix Trw :: cvMat4 and pKF parent :: KeyFrame
  assume "GetParent pKF = Some parent"
  then show "((Trw * mTcp pKF, parent), (Trw, pKF)) \<in> measure (\<lambda>(Trw, pKF). size pKF)"
    by (cases pKF) auto
qed

declare traverse_spanning_tree.simps [simp del]

text \<open>
  The body both camera-trajectory loops share: from \<^verbatim>\<open>cv::Mat Trw = cv::Mat::eye(4,4,CV_32F)\<close>
  to \<^verbatim>\<open>cv::Mat Tcw = (*lit)*Trw\<close>.
\<close>

definition frame_Tcw :: "cvMat4 \<Rightarrow> cvMat4 \<Rightarrow> KeyFrame \<Rightarrow> cvMat4 option" where
  "frame_Tcw Two lit pKF =
     (case traverse_spanning_tree 1 pKF of
        None \<Rightarrow> None
      | Some (Trw, pKF') \<Rightarrow> (let Trw' = Trw * GetPose pKF' * Two in Some (lit * Trw')))"

text \<open>\<^verbatim>\<open>Rwc = Tcw.rowRange(0,3).colRange(0,3).t()\<close> and \<^verbatim>\<open>twc = -Rwc*Tcw.rowRange(0,3).col(3)\<close>.\<close>

definition Rwc_of :: "cvMat4 \<Rightarrow> mat3" where
  "Rwc_of Tcw = t3 (rowRange_colRange_0_3 Tcw)"

definition twc_of :: "cvMat4 \<Rightarrow> vec3" where
  "twc_of Tcw = neg3 (mat3_vec (Rwc_of Tcw) (rowRange_0_3_col_3 Tcw))"

text \<open>
  The loop of \<^verbatim>\<open>SaveTrajectoryTUM\<close> over the four lists of the log. It ends when the list of
  relative poses ends; an iterator of a shorter companion list is then past its end.
\<close>

fun SaveTrajectoryTUM_loop ::
  "env \<Rightarrow> cvMat4 \<Rightarrow> cvMat4 list \<Rightarrow> KeyFrame list \<Rightarrow> real list \<Rightarrow> bool list \<Rightarrow> line list option" where
  "SaveTrajectoryTUM_loop e Two [] lRit lT lbL = Some []"
| "SaveTrajectoryTUM_loop e Two (lit # lits) (pKF # lRit) (t # lT) (lost # lbL) =
     (if lost then SaveTrajectoryTUM_loop e Two lits lRit lT lbL
      else (case frame_Tcw Two lit pKF of
              None \<Rightarrow> None
            | Some Tcw \<Rightarrow>
                (case SaveTrajectoryTUM_loop e Two lits lRit lT lbL of
                   None \<Rightarrow> None
                 | Some ls \<Rightarrow> Some (TUM_line t (twc_of Tcw) (toQuaternion e (Rwc_of Tcw)) # ls))))"
| "SaveTrajectoryTUM_loop e Two (lit # lits) lRit lT lbL = None"

text \<open>The loop of \<^verbatim>\<open>SaveTrajectoryKITTI\<close>: it has no iterator over \<^verbatim>\<open>mlbLost\<close>.\<close>

fun SaveTrajectoryKITTI_loop ::
  "cvMat4 \<Rightarrow> cvMat4 list \<Rightarrow> KeyFrame list \<Rightarrow> real list \<Rightarrow> line list option" where
  "SaveTrajectoryKITTI_loop Two [] lRit lT = Some []"
| "SaveTrajectoryKITTI_loop Two (lit # lits) (pKF # lRit) (t # lT) =
     (case frame_Tcw Two lit pKF of
        None \<Rightarrow> None
      | Some Tcw \<Rightarrow>
          (case SaveTrajectoryKITTI_loop Two lits lRit lT of
             None \<Rightarrow> None
           | Some ls \<Rightarrow> Some (KITTI_line (Rwc_of Tcw) (twc_of Tcw) # ls)))"
| "SaveTrajectoryKITTI_loop Two (lit # lits) lRit lT = None"

text \<open>
  Modelled from the spec: the comparison \<^verbatim>\<open>KeyFrame::lId\<close> is declared in \<^verbatim>\<open>KeyFrame.h\<close>,
  not part of the sources at hand; the spec has the keyframes in "ascending id order" and
  the anchor at "the lowest-id keyframe". \<^verbatim>\<open>std::sort\<close> leaves the order of equal ids
  open; keyframe ids are unique.
\<close>

definition sort_lId :: "KeyFrame list \<Rightarrow> KeyFrame list" where
  "sort_lId vpKFs = sort_key mnId vpKFs"

text \<open>
  An \<^verbatim>\<open>ofstream\<close> that failed to open drops what is written to it: the file system then
  stays as it was.
\<close>

definition write_lines :: "env \<Rightarrow> string \<Rightarrow> line list \<Rightarrow> World \<Rightarrow> World" where
  "write_lines e filename ls w =
     (if ofstream_opens e filename then w\<lparr>files := (files w)(filename \<mapsto> Text_file ls)\<rparr> else w)"

definition SaveTrajectoryTUM :: "env \<Rightarrow> string \<Rightarrow> World \<Rightarrow> System \<Rightarrow> (unit, World \<times> System) outcome" where
  "SaveTrajectoryTUM e filename w s =
     (let s1 = emit (Cout (''Saving camera trajectory to '' @ filename @ '' ...'')) s in
      if mSensor s1 = MONOCULAR
      then Returned () (w, emit (Cerr ''ERROR: SaveTrajectoryTUM cannot be used for monocular.'') s1)
      else
        (case sort_lId (GetAllKeyFrames (mpMap s1)) of
           [] \<Rightarrow> Undefined_Behaviour
         | kf0 # rest \<Rightarrow>
             (let Two = GetPoseInverse kf0 in
              case SaveTrajectoryTUM_loop e Two (mlRelativeFramePoses (mpTracker s1))
                     (mlpReferences (mpTracker s1)) (mlFrameTimes (mpTracker s1))
                     (mlbLost (mpTracker s1)) of
                None \<Rightarrow> Undefined_Behaviour
              | Some ls \<Rightarrow>
                  Returned () (write_lines e filename ls w, emit (Cout ''trajectory saved!'') s1))))"

definition SaveTrajectoryKITTI :: "env \<Rightarrow> string \<Rightarrow> World \<Rightarrow> System \<Rightarrow> (unit, World \<times> System) outcome" where
  "SaveTrajectoryKITTI e filename w s =
     (let s1 = emit (Cout (''Saving camera trajectory to '' @ filename @ '' ...'')) s in
      if mSensor s1 = MONOCULAR
      then Returned () (w, emit (Cerr ''ERROR: SaveTrajectoryKITTI cannot be used for monocular.'') s1)
      else
        (case sort_lId (GetAllKeyFrames (mpMap s1)) of
           [] \<Rightarrow> Undefined_Behaviour
         | kf0 # rest \<Rightarrow>
             (let Two = GetPoseInverse kf0 in
              case SaveTrajectoryKITTI_loop Two (mlRelativeFramePoses (mpTracker s1))
                     (mlpReferences (mpTracker s1)) (mlFrameTimes (mpTracker s1)) of
                None \<Rightarrow> Undefined_Behaviour
              | Some ls \<Rightarrow>
                  Returned () (write_lines e filename ls w, emit (Cout ''trajectory saved!'') s1))))"

text \<open>The loop of \<^verbatim>\<open>SaveKeyFrameTrajectoryTUM\<close> over the sorted keyframes.\<close>

fun SaveKeyFrameTrajectoryTUM_loop :: "env \<Rightarrow> KeyFrame list \<Rightarrow> line list" where
  "SaveKeyFrameTrajectoryTUM_loop e [] = []"
| "SaveKeyFrameTrajectoryTUM_loop e (pKF # vpKFs) =
     (if isBad pKF then SaveKeyFrameTrajectoryTUM_loop e vpKFs
      else TUM_line (mTimeStamp pKF) (GetCameraCenter pKF) (toQuaternion e (t3 (GetRotation pKF)))
             # SaveKeyFrameTrajectoryTUM_loop e vpKFs)"

definition SaveKeyFrameTrajectoryTUM :: "env \<Rightarrow> string \<Rightarrow> World \<Rightarrow> System \<Rightarrow> World \<times> System" where
  "SaveKeyFrameTrajectoryTUM e filename w s =
     (let s1 = emit (Cout (''Saving keyframe trajectory to '' @ filename @ '' ...'')) s;
          vpKFs = sort_lId (GetAllKeyFrames (mpMap s1));
          ls = SaveKeyFrameTrajectoryTUM_loop e vpKFs
      in (write_lines e filename ls w, emit (Cout ''trajectory saved!'') s1))"

section \<open>Notions used in the statements\<close>

text \<open>The state after \<open>n\<close> rounds of a polling loop that sleeps \<open>us\<close> microseconds a round.\<close>

definition slept :: "nat \<Rightarrow> nat \<Rightarrow> System \<Rightarrow> System" where
  "slept us n s = s\<lparr>events := events s @ replicate n (sleep_for_microseconds us)\<rparr>"

text \<open>
  The condition the last loop of \<^verbatim>\<open>Shutdown\<close> waits for, at poll \<open>k\<close>: local mapping
  finished, loop closing finished, no global bundle adjustment running.
\<close>

definition all_threads_stopped :: "env \<Rightarrow> nat \<Rightarrow> bool" where
  "all_threads_stopped e k \<longleftrightarrow>
     LocalMapping_isFinished e k \<and> LoopClosing_isFinished e k \<and> \<not> LoopClosing_isRunningGBA e k"

text \<open>
  What the calls recorded so far have left the workers with: the mode the tracking engine
  was told last (\<open>Some True\<close>: localization only, \<open>Some False\<close>: full mapping, \<open>None\<close>: never
  told), and whether local mapping was last asked to stop rather than released.
\<close>

definition tracking_only_mode :: "event list \<Rightarrow> bool option" where
  "tracking_only_mode evs =
     foldl (\<lambda>m ev. case ev of Tracking_InformOnlyTracking flag \<Rightarrow> Some flag | _ \<Rightarrow> m) None evs"

definition local_mapping_held :: "event list \<Rightarrow> bool" where
  "local_mapping_held evs =
     foldl (\<lambda>h ev. case ev of LocalMapping_RequestStop \<Rightarrow> True | LocalMapping_Release \<Rightarrow> False | _ \<Rightarrow> h)
       False evs"

text \<open>
  The deactivated state: both mode flags clear, tracking told to map, local mapping
  released.
\<close>

definition deactivated :: "System \<Rightarrow> bool" where
  "deactivated s' \<longleftrightarrow>
     \<not> mbActivateLocalizationMode s' \<and> \<not> mbDeactivateLocalizationMode s' \<and>
     tracking_only_mode (events s') = Some False \<and> \<not> local_mapping_held (events s')"

text \<open>
  The calls the constructor makes once the map is there, in program order;
  \<open>bReuseMap\<close> is passed to the frame drawer and to the tracking engine.
\<close>

definition ctor_events :: "string \<Rightarrow> eSensor \<Rightarrow> bool \<Rightarrow> bool \<Rightarrow> event list" where
  "ctor_events strSettingsFile sensor bUseViewer bReuseMap =
     [new_FrameDrawer bReuseMap, new_MapDrawer strSettingsFile,
      new_Tracking strSettingsFile sensor bReuseMap,
      new_LocalMapping (sensor = MONOCULAR), thread_LocalMapping_Run,
      new_LoopClosing (sensor \<noteq> MONOCULAR), thread_LoopClosing_Run]
     @ (if bUseViewer then [new_Viewer strSettingsFile False, thread_Viewer_Run, Tracking_SetViewer]
        else [])
     @ [Tracking_SetLocalMapper, Tracking_SetLoopClosing,
        LocalMapping_SetTracker, LocalMapping_SetLoopCloser,
        LoopClosing_SetTracker, LoopClosing_SetLocalMapper]"

text \<open>
  The words of the specification for the pose of a logged frame. The parent chain of a
  keyframe is the keyframe, its parent, and so on up to the root. Along it, the product of
  the stored relative-to-parent transforms of the bad keyframes met before the first one
  that is not bad is accumulated, starting from the identity; the frame's pose is its
  logged relative pose times (accumulated times pose of that ancestor times \<open>Two\<close>).
\<close>

function parent_chain :: "KeyFrame \<Rightarrow> KeyFrame list" where
  "parent_chain K = K # (case GetParent K of None \<Rightarrow> [] | Some parent \<Rightarrow> parent_chain parent)"
  by pat_completeness auto
termination
proof (relation "measure size")
  show "wf (measure (size :: KeyFrame \<Rightarrow> nat))"
    by simp
next
  fix K parent :: KeyFrame
  assume "GetParent K = Some parent"
  then show "(parent, K) \<in> measure size"
    by (cases K) auto
qed

declare parent_chain.simps [simp del]

definition accumulated :: "KeyFrame \<Rightarrow> cvMat4" where
  "accumulated K = foldl (*) 1 (map mTcp (takeWhile isBad (parent_chain K)))"

definition first_live_ancestor :: "KeyFrame \<Rightarrow> KeyFrame option" where
  "first_live_ancestor K = find (\<lambda>A. \<not> isBad A) (parent_chain K)"

definition recovered_Tcw :: "cvMat4 \<Rightarrow> cvMat4 \<Rightarrow> KeyFrame \<Rightarrow> cvMat4 option" where
  "recovered_Tcw Two relativePose K =
     (case first_live_ancestor K of
        None \<Rightarrow> None
      | Some A \<Rightarrow> Some (relativePose * (accumulated K * GetPose A * Two)))"

text \<open>The log as a list of entries: relative pose, reference keyframe, timestamp, lost flag.\<close>

definition log_entries :: "Tracking \<Rightarrow> (cvMat4 \<times> KeyFrame \<times> real \<times> bool) list" where
  "log_entries trk =
     zip (mlRelativeFramePoses trk) (zip (mlpReferences trk) (zip (mlFrameTimes trk) (mlbLost trk)))"

text \<open>
  The line each encoding prints for a pose \<open>Tcw\<close>: the inverse of a rigid \<open>Tcw\<close> has the
  rotation block \<open>Rwc_of Tcw\<close> (the orientation) and the translation \<open>twc_of Tcw\<close> (the camera
  centre).
\<close>

definition TUM_line_of :: "env \<Rightarrow> cvMat4 \<Rightarrow> cvMat4 \<Rightarrow> KeyFrame \<Rightarrow> real \<Rightarrow> line" where
  "TUM_line_of e Two relativePose K timestamp =
     TUM_line timestamp (twc_of (the (recovered_Tcw Two relativePose K)))
       (toQuaternion e (Rwc_of (the (recovered_Tcw Two relativePose K))))"

definition KITTI_line_of :: "cvMat4 \<Rightarrow> cvMat4 \<Rightarrow> KeyFrame \<Rightarrow> line" where
  "KITTI_line_of Two relativePose K =
     KITTI_line (Rwc_of (the (recovered_Tcw Two relativePose K)))
       (twc_of (the (recovered_Tcw Two relativePose K)))"

text \<open>The line of the keyframe trajectory: timestamp, camera centre, orientation quaternion.\<close>

definition keyframe_line :: "env \<Rightarrow> KeyFrame \<Rightarrow> line" where
  "keyframe_line e pKF =
     TUM_line (mTimeStamp pKF) (GetCameraCenter pKF) (toQuaternion e (t3 (GetRotation pKF)))"

text \<open>
  The accumulation read the other way round: each transform multiplied onto the
  accumulator from the left (accumulator := transform * accumulator).
\<close>

definition left_accumulated :: "KeyFrame \<Rightarrow> cvMat4" where
  "left_accumulated K =
     foldl (\<lambda>acc T. T * acc) 1 (map mTcp (takeWhile isBad (parent_chain K)))"

definition left_recovered_Tcw :: "cvMat4 \<Rightarrow> cvMat4 \<Rightarrow> KeyFrame \<Rightarrow> cvMat4 option" where
  "left_recovered_Tcw Two relativePose K =
     (case first_live_ancestor K of
        None \<Rightarrow> None
      | Some A \<Rightarrow> Some (relativePose * (left_accumulated K * GetPose A * Two)))"

text \<open>
  A well-formed log: the four lists have the same length, and the reference keyframe of
  every frame that is not lost has an ancestor (or is itself a keyframe) that is not bad.
\<close>

definition log_well_formed :: "Tracking \<Rightarrow> bool" where
  "log_well_formed trk \<longleftrightarrow>
     length (mlpReferences trk) = length (mlRelativeFramePoses trk) \<and>
     length (mlFrameTimes trk) = length (mlRelativeFramePoses trk) \<and>
     length (mlbLost trk) = length (mlRelativeFramePoses trk) \<and>
     (\<forall>(relativePose, K, timestamp, lost) \<in> set (log_entries trk).
        \<not> lost \<longrightarrow> first_live_ancestor K \<noteq> None)"

section \<open>Concrete inputs\<close>

definition ex_Tracking :: Tracking where
  "ex_Tracking =
     \<lparr>mState = 2, frameId = 7, mCurrentFrame_mvpMapPoints = [], mCurrentFrame_mvKeysUn = [],
      mlRelativeFramePoses = [], mlpReferences = [], mlFrameTimes = [], mlbLost = []\<rparr>"

definition ex_System :: System where
  "ex_System =
     \<lparr>mSensor = STEREO, mpVocabulary = ORBVocabulary [],
      mpKeyFrameDatabase = \<lparr>mpVoc = Some (ORBVocabulary []), mvInvertedFile = []\<rparr>,
      mpMap = \<lparr>GetAllKeyFrames = [], GetLastBigChangeIdx = 3\<rparr>,
      mpTracker = ex_Tracking, mpViewer = False,
      mbReset = False, mbResetAndLoad = False,
      mbActivateLocalizationMode = False, mbDeactivateLocalizationMode = False,
      mTrackingState = 2, mTrackedMapPoints = [], mTrackedKeyPointsUn = [],
      mapfile = [], events = []\<rparr>"

definition ex_env :: env where
  "ex_env =
     \<lparr>LocalMapping_isStopped = (\<lambda>k. 2 \<le> k),
      LocalMapping_isFinished = (\<lambda>k. 1 \<le> k),
      LoopClosing_isFinished = (\<lambda>k. 2 \<le> k),
      LoopClosing_isRunningGBA = (\<lambda>k. k < 3),
      Viewer_isFinished = (\<lambda>k. 1 \<le> k),
      Viewer_isStopped = (\<lambda>k. True),
      ofstream_opens = (\<lambda>name. name \<noteq> ''/proc/map.bin''),
      FileStorage_isOpened = (\<lambda>name. True),
      loadFromTextFile = (\<lambda>name. Some (ORBVocabulary [1, 2])),
      loadFromBinaryFile = (\<lambda>name. None),
      Tracking_ctor = (\<lambda>settings sensor reuse. ex_Tracking),
      InformOnlyTracking = (\<lambda>flag t. t),
      Reset_Tracking = (\<lambda>t. t\<lparr>mlRelativeFramePoses := [], mlpReferences := [],
                                mlFrameTimes := [], mlbLost := []\<rparr>),
      ResetAfterLoaded = (\<lambda>t. t),
      GrabImageStereo = (\<lambda>imLeft imRight timestamp t. (None, t)),
      GrabImageRGBD = (\<lambda>im depthmap timestamp t. (None, t)),
      GrabImageMonocular = (\<lambda>im timestamp t. (None, t)),
      toQuaternion = (\<lambda>R. (0, 0, 0, 1))\<rparr>"

text \<open>
  A spanning tree root \<open>\<rightarrow>\<close> K1 \<open>\<rightarrow>\<close> K2 with pure translations as poses; K1 has been
  culled and keeps its transform relative to the root. The log has three frames, the
  second one lost.
\<close>

definition translation :: "real \<Rightarrow> real \<Rightarrow> real \<Rightarrow> cvMat4" where
  "translation a b c = Mat4 (Vec4 1 0 0 a) (Vec4 0 1 0 b) (Vec4 0 0 1 c) (Vec4 0 0 0 1)"

definition ex_root :: KeyFrame where
  "ex_root = KeyFrame 0 0 10 (translation 1 0 0) (translation (- 1) 0 0) eye3 (Vec3 (- 1) 0 0)
               1 False None"

definition ex_K1 :: KeyFrame where
  "ex_K1 = KeyFrame 1 3 11 (translation 1 2 0) (translation (- 1) (- 2) 0) eye3 (Vec3 (- 1) (- 2) 0)
             (translation 0 2 0) True (Some ex_root)"

definition ex_K2 :: KeyFrame where
  "ex_K2 = KeyFrame 2 5 12 (translation 1 2 4) (translation (- 1) (- 2) (- 4)) eye3
             (Vec3 (- 1) (- 2) (- 4)) 1 False (Some ex_K1)"

definition ex_Map :: ORB_Map where
  "ex_Map = \<lparr>GetAllKeyFrames = [ex_K2, ex_K1, ex_root], GetLastBigChangeIdx = 3\<rparr>"

definition ex_log :: Tracking where
  "ex_log =
     ex_Tracking\<lparr>mlRelativeFramePoses := [translation 0 0 3, translation 0 0 3, 1],
                 mlpReferences := [ex_K1, ex_K1, ex_K2],
                 mlFrameTimes := [20, 21, 22],
                 mlbLost := [False, True, False]\<rparr>"

definition ex_World :: World where
  "ex_World =
     process_start
       [''map.bin'' \<mapsto> Archive [ser_Map ex_Map,
                                  ser_KeyFrameDatabase \<lparr>mpVoc = None, mvInvertedFile = []\<rparr>]]
       0"

definition ex_stereo :: System where
  "ex_stereo = ex_System\<lparr>mpMap := ex_Map, mpTracker := ex_log\<rparr>"

text \<open>The same system with a log of two frames, none of them lost.\<close>

definition ex_all_tracked :: System where
  "ex_all_tracked =
     ex_stereo\<lparr>mpTracker := ex_log\<lparr>mlRelativeFramePoses := [translation 0 0 3, 1],
                                     mlpReferences := [ex_K1, ex_K2],
                                     mlFrameTimes := [20, 22],
                                     mlbLost := [False, False]\<rparr>\<rparr>"

text \<open>
  A chain with two culled keyframes in a row: \<open>ex_Q\<close> (a quarter turn about the z axis
  relative to its parent) under \<open>ex_P\<close> (shifted by one along x relative to its parent)
  under the live \<open>ex_A\<close> at the origin.
\<close>

definition quarter_turn :: cvMat4 where
  "quarter_turn = Mat4 (Vec4 0 (- 1) 0 0) (Vec4 1 0 0 0) (Vec4 0 0 1 0) (Vec4 0 0 0 1)"

definition ex_A :: KeyFrame where
  "ex_A = KeyFrame 0 0 10 1 1 eye3 (Vec3 0 0 0) 1 False None"

definition ex_P :: KeyFrame where
  "ex_P = KeyFrame 1 1 11 (translation 1 0 0) (translation (- 1) 0 0) eye3 (Vec3 (- 1) 0 0)
            (translation 1 0 0) True (Some ex_A)"

definition ex_Q :: KeyFrame where
  "ex_Q = KeyFrame 2 2 12 (quarter_turn * translation 1 0 0) 1 eye3 (Vec3 0 0 0)
            quarter_turn True (Some ex_P)"

section \<open>The polling loop\<close>

lemma slept_emit: "slept us n (emit (sleep_for_microseconds us) s) = slept us (Suc n) s"
  by (simp add: slept_def emit_def replicate_append_same)

lemma sleep_until_finds:
  "stopped (k + n) \<Longrightarrow> (\<forall>i<n. \<not> stopped (k + i)) \<Longrightarrow> sleep_until stopped us k s = Some (slept us n s)"
proof (induction n arbitrary: k s)
  case 0
  then show ?case by (simp add: sleep_until.simps slept_def)
next
  case (Suc n)
  from Suc.prems(2) have nk: "\<not> stopped k" by (metis add.right_neutral zero_less_Suc)
  have "sleep_until stopped us (Suc k) (emit (sleep_for_microseconds us) s)
        = Some (slept us n (emit (sleep_for_microseconds us) s))"
  proof (rule Suc.IH)
    show "stopped (Suc k + n)" using Suc.prems(1) by simp
    show "\<forall>i<n. \<not> stopped (Suc k + i)" using Suc.prems(2) by (metis Suc_less_eq add_Suc_shift)
  qed
  with nk show ?case by (subst sleep_until.simps) (simp add: slept_emit)
qed

lemma sleep_until_Some_stops:
  assumes a: "sleep_until stopped us k s = Some s'"
  shows "\<exists>n. stopped (k + n)"
proof (rule sleep_until.raw_induct
    [where P = "\<lambda>stopped us k s s'. \<exists>n. stopped (k + n)", OF _ a])
  fix f :: "(nat \<Rightarrow> bool) \<Rightarrow> nat \<Rightarrow> nat \<Rightarrow> System \<Rightarrow> System option"
  fix stopped us k s y
  assume IH: "\<And>c u j t z. f c u j t = Some z \<Longrightarrow> \<exists>n. c (j + n)"
  assume step: "(if stopped k then Some s
                 else f stopped us (Suc k) (emit (sleep_for_microseconds us) s)) = Some y"
  show "\<exists>n. stopped (k + n)"
  proof (cases "stopped k")
    case True
    then show ?thesis by (metis add.right_neutral)
  next
    case False
    with step have "f stopped us (Suc k) (emit (sleep_for_microseconds us) s) = Some y" by simp
    from IH[OF this] obtain n where "stopped (Suc k + n)" by blast
    then show ?thesis by (metis add_Suc_shift)
  qed
qed

lemma sleep_until_Some_iff:
  "sleep_until stopped us k s = Some s' \<longleftrightarrow>
     (\<exists>n. stopped (k + n) \<and> (\<forall>i<n. \<not> stopped (k + i)) \<and> s' = slept us n s)"
proof
  assume a: "sleep_until stopped us k s = Some s'"
  then obtain m where m: "stopped (k + m)" using sleep_until_Some_stops by blast
  define n where "n = (LEAST n. stopped (k + n))"
  have n1: "stopped (k + n)" unfolding n_def using m by (rule LeastI)
  have n2: "\<forall>i<n. \<not> stopped (k + i)" unfolding n_def using not_less_Least by blast
  from sleep_until_finds[OF n1 n2] a have "s' = slept us n s" by simp
  with n1 n2 show "\<exists>n. stopped (k + n) \<and> (\<forall>i<n. \<not> stopped (k + i)) \<and> s' = slept us n s" by blast
next
  assume "\<exists>n. stopped (k + n) \<and> (\<forall>i<n. \<not> stopped (k + i)) \<and> s' = slept us n s"
  then show "sleep_until stopped us k s = Some s'" using sleep_until_finds by blast
qed

lemma sleep_until_None_iff:
  "sleep_until stopped us k s = None \<longleftrightarrow> (\<forall>n. \<not> stopped (k + n))"
proof
  assume a: "sleep_until stopped us k s = None"
  show "\<forall>n. \<not> stopped (k + n)"
  proof (rule ccontr)
    assume "\<not> (\<forall>n. \<not> stopped (k + n))"
    then obtain m where m: "stopped (k + m)" by blast
    define n where "n = (LEAST n. stopped (k + n))"
    have n1: "stopped (k + n)" unfolding n_def using m by (rule LeastI)
    have n2: "\<forall>i<n. \<not> stopped (k + i)" unfolding n_def using not_less_Least by blast
    from sleep_until_finds[OF n1 n2] a show False by simp
  qed
next
  assume "\<forall>n. \<not> stopped (k + n)"
  then show "sleep_until stopped us k s = None"
    using sleep_until_Some_stops by (metis option.exhaust)
qed

section \<open>Properties of Shutdown\<close>

lemma mpViewer_slept [simp]: "mpViewer (slept us n s) = mpViewer s"
  by (simp add: slept_def)

lemma mpViewer_emit [simp]: "mpViewer (emit ev s) = mpViewer s"
  by (simp add: emit_def)

lemma bind_sleep_until:
  "Option.bind (sleep_until stopped us 0 s) f = Some r \<longleftrightarrow>
     (\<exists>n. stopped n \<and> (\<forall>i<n. \<not> stopped i) \<and> f (slept us n s) = Some r)"
  by (auto simp: bind_eq_Some_conv sleep_until_Some_iff)

lemma events_slept [simp]:
  "events (slept us n s) = events s @ replicate n (sleep_for_microseconds us)"
  by (simp add: slept_def)

lemma events_emit [simp]: "events (emit ev s) = events s @ [ev]"
  by (simp add: emit_def)

lemma slept_as_update: "slept us n s = s\<lparr>events := events s @ replicate n (sleep_for_microseconds us)\<rparr>"
  by (simp add: slept_def)

lemma emit_as_update: "emit ev s = s\<lparr>events := events s @ [ev]\<rparr>"
  by (simp add: emit_def)

lemma Shutdown_cond:
  "(\<lambda>k. \<not> (\<not> LocalMapping_isFinished e k \<or> \<not> LoopClosing_isFinished e k
            \<or> LoopClosing_isRunningGBA e k)) = all_threads_stopped e"
  by (auto simp: all_threads_stopped_def fun_eq_iff)

lemma Shutdown_Some_iff:
  "Shutdown e s = Some s' \<longleftrightarrow>
     (\<exists>nv n.
        (if mpViewer s then Viewer_isFinished e nv \<and> (\<forall>i<nv. \<not> Viewer_isFinished e i) else nv = 0) \<and>
        all_threads_stopped e n \<and> (\<forall>i<n. \<not> all_threads_stopped e i) \<and>
        s' = s\<lparr>events := events s @ [LocalMapping_RequestFinish, LoopClosing_RequestFinish]
               @ (if mpViewer s then [Viewer_RequestFinish] else [])
               @ replicate nv (sleep_for_microseconds 5000)
               @ replicate n (sleep_for_microseconds 5000)
               @ (if mpViewer s then [pangolin_BindToContext ''ORB-SLAM2: Map Viewer''] else [])\<rparr>)"
  (is "?L \<longleftrightarrow> ?R")
proof (cases "mpViewer s")
  case True
  have "Shutdown e s = Some s' \<longleftrightarrow>
     (\<exists>nv. Viewer_isFinished e nv \<and> (\<forall>i<nv. \<not> Viewer_isFinished e i) \<and>
       (\<exists>n. all_threads_stopped e n \<and> (\<forall>i<n. \<not> all_threads_stopped e i) \<and>
          emit (pangolin_BindToContext ''ORB-SLAM2: Map Viewer'')
            (slept 5000 n (slept 5000 nv (emit Viewer_RequestFinish
               (emit LoopClosing_RequestFinish (emit LocalMapping_RequestFinish s))))) = s'))"
    using True unfolding Shutdown_def Let_def Shutdown_cond
    by (simp add: bind_sleep_until)
  also have "\<dots> \<longleftrightarrow> ?R"
    using True by (simp add: slept_as_update emit_as_update eq_commute)
  finally show ?thesis .
next
  case False
  have "Shutdown e s = Some s' \<longleftrightarrow>
       (\<exists>n. all_threads_stopped e n \<and> (\<forall>i<n. \<not> all_threads_stopped e i) \<and>
            (slept 5000 n (emit LoopClosing_RequestFinish (emit LocalMapping_RequestFinish s))) = s')"
    using False unfolding Shutdown_def Let_def Shutdown_cond
    by (simp add: bind_sleep_until)
  also have "\<dots> \<longleftrightarrow> ?R"
    using False by (simp add: slept_as_update emit_as_update eq_commute)
  finally show ?thesis .
qed

lemma Shutdown_None_iff:
  "Shutdown e s = None \<longleftrightarrow>
     (mpViewer s \<and> (\<forall>k. \<not> Viewer_isFinished e k)) \<or> (\<forall>k. \<not> all_threads_stopped e k)"
proof (cases "mpViewer s")
  case True
  then show ?thesis
    unfolding Shutdown_def Let_def Shutdown_cond
    by (auto simp: bind_eq_None_conv sleep_until_Some_iff sleep_until_None_iff)
next
  case False
  then show ?thesis
    unfolding Shutdown_def Let_def Shutdown_cond
    by (auto simp: bind_eq_None_conv sleep_until_None_iff)
qed


text \<open>
  C6. \<^verbatim>\<open>Shutdown\<close> asks local mapping and loop closing to finish, then, when there is a
  viewer, asks it to finish and sleeps until the viewer says it has finished (poll \<open>nv\<close>
  is the first that says so), and only then sleeps until a poll \<open>n\<close> finds local mapping
  finished, loop closing finished and no global bundle adjustment running (no earlier poll
  of that loop found all three). It returns in no other way: when the viewer never
  finishes, or the three conditions never hold together, it does not return.
\<close>

theorem Shutdown_blocks_in_order:
  "(Shutdown e s = Some s' \<longleftrightarrow>
     (\<exists>nv n.
        (if mpViewer s then Viewer_isFinished e nv \<and> (\<forall>i<nv. \<not> Viewer_isFinished e i) else nv = 0) \<and>
        all_threads_stopped e n \<and> (\<forall>i<n. \<not> all_threads_stopped e i) \<and>
        s' = s\<lparr>events := events s @ [LocalMapping_RequestFinish, LoopClosing_RequestFinish]
               @ (if mpViewer s then [Viewer_RequestFinish] else [])
               @ replicate nv (sleep_for_microseconds 5000)
               @ replicate n (sleep_for_microseconds 5000)
               @ (if mpViewer s then [pangolin_BindToContext ''ORB-SLAM2: Map Viewer''] else [])\<rparr>)) \<and>
   (Shutdown e s = None \<longleftrightarrow>
     (mpViewer s \<and> (\<forall>k. \<not> Viewer_isFinished e k)) \<or> (\<forall>k. \<not> all_threads_stopped e k))"
  using Shutdown_Some_iff [of e s s'] Shutdown_None_iff [of e s] by simp

theorem Shutdown_blocks_in_order_witness:
  "Shutdown ex_env (ex_System\<lparr>mpViewer := True\<rparr>) =
     Some (ex_System\<lparr>mpViewer := True,
             events := [LocalMapping_RequestFinish, LoopClosing_RequestFinish, Viewer_RequestFinish,
                        sleep_for_microseconds 5000,
                        sleep_for_microseconds 5000, sleep_for_microseconds 5000,
                        sleep_for_microseconds 5000,
                        pangolin_BindToContext ''ORB-SLAM2: Map Viewer'']\<rparr>) \<and>
   Shutdown (ex_env\<lparr>LoopClosing_isRunningGBA := (\<lambda>k. True)\<rparr>) ex_System = None"
proof
  show "Shutdown ex_env (ex_System\<lparr>mpViewer := True\<rparr>) =
     Some (ex_System\<lparr>mpViewer := True,
             events := [LocalMapping_RequestFinish, LoopClosing_RequestFinish, Viewer_RequestFinish,
                        sleep_for_microseconds 5000,
                        sleep_for_microseconds 5000, sleep_for_microseconds 5000,
                        sleep_for_microseconds 5000,
                        pangolin_BindToContext ''ORB-SLAM2: Map Viewer'']\<rparr>)"
    by (subst conjunct1 [OF Shutdown_blocks_in_order], rule exI [of _ 1], rule exI [of _ 3])
       (simp add: ex_env_def ex_System_def all_threads_stopped_def less_Suc_eq numeral_3_eq_3)
  show "Shutdown (ex_env\<lparr>LoopClosing_isRunningGBA := (\<lambda>k. True)\<rparr>) ex_System = None"
    by (subst conjunct2 [OF Shutdown_blocks_in_order])
       (simp add: ex_env_def ex_System_def all_threads_stopped_def)
qed


section \<open>The generation observed by MapChanged\<close>

text \<open>
  C10. The generation last observed by \<^verbatim>\<open>MapChanged\<close> is the function-static \<open>n\<close>, zero
  at process start and a part of the process, not of the \<^verbatim>\<open>System\<close> object. A call answers
  true exactly when the map's last-big-change index is greater than \<open>n\<close>; a true answer
  stores the index in \<open>n\<close>, a false answer leaves the process state as it was, and nothing
  else of the process state changes. So once one object has answered true, a second object
  whose map index is not greater gets false from the state the first call left behind.
\<close>

theorem MapChanged_static_shared:
  "MapChanged_n (process_start fs nid) = 0 \<and>
   (fst (MapChanged w s) \<longleftrightarrow> MapChanged_n w < GetLastBigChangeIdx (mpMap s)) \<and>
   snd (MapChanged w s) =
     (if fst (MapChanged w s) then w\<lparr>MapChanged_n := GetLastBigChangeIdx (mpMap s)\<rparr> else w) \<and>
   (fst (MapChanged w s) \<and> GetLastBigChangeIdx (mpMap s') \<le> GetLastBigChangeIdx (mpMap s)
      \<longrightarrow> \<not> fst (MapChanged (snd (MapChanged w s)) s'))"
  by (simp add: MapChanged_def process_start_def Let_def)

theorem MapChanged_static_shared_witness:
  "fst (MapChanged (process_start Map.empty 0) ex_System) \<and>
   GetLastBigChangeIdx (mpMap (ex_System\<lparr>mSensor := MONOCULAR\<rparr>))
     \<le> GetLastBigChangeIdx (mpMap ex_System) \<and>
   \<not> fst (MapChanged (snd (MapChanged (process_start Map.empty 0) ex_System))
            (ex_System\<lparr>mSensor := MONOCULAR\<rparr>))"
  using MapChanged_static_shared [of Map.empty 0 "process_start Map.empty 0" ex_System
      "ex_System\<lparr>mSensor := MONOCULAR\<rparr>"]
  by (simp add: MapChanged_def process_start_def ex_System_def)

section \<open>Mode requests at ingestion\<close>

lemma Check_mode_change_both:
  assumes "mbActivateLocalizationMode s" "mbDeactivateLocalizationMode s"
  shows "Check_mode_change e announce s = Some s1 \<longleftrightarrow>
     (\<exists>n. LocalMapping_isStopped e n \<and> (\<forall>i<n. \<not> LocalMapping_isStopped e i) \<and>
        s1 = s\<lparr>events := events s @ announce @ [LocalMapping_RequestStop]
                   @ replicate n (sleep_for_microseconds 1000)
                   @ [Tracking_InformOnlyTracking True, Tracking_InformOnlyTracking False,
                      LocalMapping_Release],
                mpTracker := InformOnlyTracking e False (InformOnlyTracking e True (mpTracker s)),
                mbActivateLocalizationMode := False, mbDeactivateLocalizationMode := False\<rparr>)"
  (is "?L \<longleftrightarrow> ?R")
proof -
  have "?L \<longleftrightarrow>
     (\<exists>n. LocalMapping_isStopped e n \<and> (\<forall>i<n. \<not> LocalMapping_isStopped e i) \<and>
        (emit LocalMapping_Release
           (call_Tracking (Tracking_InformOnlyTracking False) (InformOnlyTracking e False)
              ((call_Tracking (Tracking_InformOnlyTracking True) (InformOnlyTracking e True)
                  (slept 1000 n (emit LocalMapping_RequestStop (s\<lparr>events := events s @ announce\<rparr>))))
                 \<lparr>mbActivateLocalizationMode := False\<rparr>)))
           \<lparr>mbDeactivateLocalizationMode := False\<rparr> = s1)"
    using assms unfolding Check_mode_change_def
    by (simp add: bind_sleep_until call_Tracking_def slept_def emit_def)
  also have "\<dots> \<longleftrightarrow> ?R"
    apply (subst eq_commute [of _ s1])
    apply (intro iff_exI conj_cong refl)
    apply (rule arg_cong [where f = "(=) s1"])
    apply (rule System.equality; simp add: slept_def emit_def call_Tracking_def)
    done
  finally show ?thesis .
qed

lemma Check_mode_change_both_None:
  assumes "mbActivateLocalizationMode s"
  shows "Check_mode_change e announce s = None \<longleftrightarrow> (\<forall>n. \<not> LocalMapping_isStopped e n)"
  using assms unfolding Check_mode_change_def
  by (auto simp: bind_eq_None_conv sleep_until_None_iff sleep_until_Some_iff)


lemma foldl_replicate_id: "f a x = a \<Longrightarrow> foldl f a (replicate n x) = a"
  by (induction n) auto

lemma events_Check_reset:
  "events (Check_reset e s) = events s @ (if mbReset s then [Tracking_Reset] else [])"
  by (simp add: Check_reset_def call_Tracking_def)

lemma events_Check_reset_and_load:
  "events (Check_reset_and_load e s) = events s @ (if mbResetAndLoad s then [Tracking_ResetAfterLoaded] else [])"
  by (simp add: Check_reset_and_load_def call_Tracking_def)

lemma mode_flags_Check_reset [simp]:
  "mbActivateLocalizationMode (Check_reset e s) = mbActivateLocalizationMode s"
  "mbDeactivateLocalizationMode (Check_reset e s) = mbDeactivateLocalizationMode s"
  "mbResetAndLoad (Check_reset e s) = mbResetAndLoad s"
  by (simp_all add: Check_reset_def call_Tracking_def emit_def)

lemma mode_flags_Check_reset_and_load [simp]:
  "mbActivateLocalizationMode (Check_reset_and_load e s) = mbActivateLocalizationMode s"
  "mbDeactivateLocalizationMode (Check_reset_and_load e s) = mbDeactivateLocalizationMode s"
  by (simp_all add: Check_reset_and_load_def call_Tracking_def emit_def)

lemma mode_flags_emit [simp]:
  "mbActivateLocalizationMode (emit ev s) = mbActivateLocalizationMode s"
  "mbDeactivateLocalizationMode (emit ev s) = mbDeactivateLocalizationMode s"
  "mbResetAndLoad (emit ev s) = mbResetAndLoad s"
  "mbReset (emit ev s) = mbReset s"
  "mSensor (emit ev s) = mSensor s"
  by (simp_all add: emit_def)

lemma foldl_mode_sleep [simp]:
  "foldl (\<lambda>m ev. case ev of Tracking_InformOnlyTracking flag \<Rightarrow> Some flag | _ \<Rightarrow> m) m0
     (replicate n (sleep_for_microseconds us)) = m0"
  by (rule foldl_replicate_id) simp

lemma foldl_held_sleep [simp]:
  "foldl (\<lambda>h ev. case ev of LocalMapping_RequestStop \<Rightarrow> True | LocalMapping_Release \<Rightarrow> False | _ \<Rightarrow> h) h0
     (replicate n (sleep_for_microseconds us)) = h0"
  by (rule foldl_replicate_id) simp

lemma deactivated_after_both:
  assumes A: "mbActivateLocalizationMode s" and D: "mbDeactivateLocalizationMode s"
    and c: "Check_mode_change e announce s = Some s1"
    and ann: "announce = [] \<or> (\<exists>msg. announce = [Cout msg])"
    and s': "events s' = events s1 @ (if r then [Tracking_Reset] else [])
               @ (if l then [Tracking_ResetAfterLoaded] else []) @ [grab]"
       "mbActivateLocalizationMode s' = mbActivateLocalizationMode s1"
       "mbDeactivateLocalizationMode s' = mbDeactivateLocalizationMode s1"
    and grab: "grab \<in> {Tracking_GrabImageStereo t, Tracking_GrabImageRGBD t, Tracking_GrabImageMonocular t}"
  shows "deactivated s'"
proof -
  from c obtain n where s1: "s1 = s\<lparr>events := events s @ announce @ [LocalMapping_RequestStop]
                   @ replicate n (sleep_for_microseconds 1000)
                   @ [Tracking_InformOnlyTracking True, Tracking_InformOnlyTracking False,
                      LocalMapping_Release],
                mpTracker := InformOnlyTracking e False (InformOnlyTracking e True (mpTracker s)),
                mbActivateLocalizationMode := False, mbDeactivateLocalizationMode := False\<rparr>"
    using Check_mode_change_both [OF A D] by blast
  have flags: "\<not> mbActivateLocalizationMode s'" "\<not> mbDeactivateLocalizationMode s'"
    by (simp_all add: s' s1)
  have ev: "events s' = (events s @ announce) @ [LocalMapping_RequestStop]
                   @ replicate n (sleep_for_microseconds 1000)
                   @ [Tracking_InformOnlyTracking True, Tracking_InformOnlyTracking False,
                      LocalMapping_Release] @ (if r then [Tracking_Reset] else [])
               @ (if l then [Tracking_ResetAfterLoaded] else []) @ [grab]"
    by (simp add: s' s1)
  have m: "tracking_only_mode (events s') = Some False"
    unfolding ev tracking_only_mode_def foldl_append using grab by auto
  have h: "\<not> local_mapping_held (events s')"
    unfolding ev local_mapping_held_def foldl_append using grab by auto
  show ?thesis
    unfolding deactivated_def using flags m h by simp
qed

lemma TrackStereo_deactivate_wins:
  assumes A: "mbActivateLocalizationMode s" and D: "mbDeactivateLocalizationMode s"
    and S: "mSensor s = STEREO"
  shows "(TrackStereo e imLeft imRight timestamp s = None \<longleftrightarrow> (\<forall>n. \<not> LocalMapping_isStopped e n)) \<and>
         (\<forall>out. TrackStereo e imLeft imRight timestamp s = Some out
            \<longrightarrow> (\<exists>Tcw s'. out = Returned Tcw s' \<and> deactivated s'))"
proof (intro conjI allI impI)
  show "TrackStereo e imLeft imRight timestamp s = None \<longleftrightarrow> (\<forall>n. \<not> LocalMapping_isStopped e n)"
    using S by (simp add: TrackStereo_def Let_def bind_eq_None_conv Check_mode_change_both_None [OF A])
next
  fix out
  assume "TrackStereo e imLeft imRight timestamp s = Some out"
  then obtain s1 where c: "Check_mode_change e [] s = Some s1"
    and out: "out = Returned (fst (GrabImageStereo e imLeft imRight timestamp (mpTracker (Check_reset e s1))))
               (snapshot ((emit (Tracking_GrabImageStereo timestamp) (Check_reset e s1))
                  \<lparr>mpTracker := snd (GrabImageStereo e imLeft imRight timestamp (mpTracker (Check_reset e s1)))\<rparr>))"
    using S by (auto simp: TrackStereo_def Let_def bind_eq_Some_conv)
  have "deactivated (snapshot ((emit (Tracking_GrabImageStereo timestamp) (Check_reset e s1))
                  \<lparr>mpTracker := snd (GrabImageStereo e imLeft imRight timestamp (mpTracker (Check_reset e s1)))\<rparr>))"
    by (rule deactivated_after_both [OF A D c, where r = "mbReset s1" and l = False
          and grab = "Tracking_GrabImageStereo timestamp" and t = timestamp])
       (simp_all add: snapshot_def events_Check_reset)
  with out show "\<exists>Tcw s'. out = Returned Tcw s' \<and> deactivated s'" by blast
qed


lemma TrackRGBD_deactivate_wins:
  assumes A: "mbActivateLocalizationMode s" and D: "mbDeactivateLocalizationMode s"
    and S: "mSensor s = RGBD"
  shows "(TrackRGBD e im depthmap timestamp s = None \<longleftrightarrow> (\<forall>n. \<not> LocalMapping_isStopped e n)) \<and>
         (\<forall>out. TrackRGBD e im depthmap timestamp s = Some out
            \<longrightarrow> (\<exists>Tcw s'. out = Returned Tcw s' \<and> deactivated s'))"
proof (intro conjI allI impI)
  show "TrackRGBD e im depthmap timestamp s = None \<longleftrightarrow> (\<forall>n. \<not> LocalMapping_isStopped e n)"
    using S by (simp add: TrackRGBD_def Let_def bind_eq_None_conv Check_mode_change_both_None [OF A])
next
  fix out
  assume "TrackRGBD e im depthmap timestamp s = Some out"
  then obtain s1 where c: "Check_mode_change e [] s = Some s1"
    and out: "out = Returned (fst (GrabImageRGBD e im depthmap timestamp (mpTracker (Check_reset e s1))))
               (snapshot ((emit (Tracking_GrabImageRGBD timestamp) (Check_reset e s1))
                  \<lparr>mpTracker := snd (GrabImageRGBD e im depthmap timestamp (mpTracker (Check_reset e s1)))\<rparr>))"
    using S by (auto simp: TrackRGBD_def Let_def bind_eq_Some_conv)
  have "deactivated (snapshot ((emit (Tracking_GrabImageRGBD timestamp) (Check_reset e s1))
                  \<lparr>mpTracker := snd (GrabImageRGBD e im depthmap timestamp (mpTracker (Check_reset e s1)))\<rparr>))"
    by (rule deactivated_after_both [OF A D c, where r = "mbReset s1" and l = False
          and grab = "Tracking_GrabImageRGBD timestamp" and t = timestamp])
       (simp_all add: snapshot_def events_Check_reset)
  with out show "\<exists>Tcw s'. out = Returned Tcw s' \<and> deactivated s'" by blast
qed

lemma TrackMonocular_deactivate_wins:
  assumes A: "mbActivateLocalizationMode s" and D: "mbDeactivateLocalizationMode s"
    and S: "mSensor s = MONOCULAR"
  shows "(TrackMonocular e im timestamp s = None \<longleftrightarrow> (\<forall>n. \<not> LocalMapping_isStopped e n)) \<and>
         (\<forall>out. TrackMonocular e im timestamp s = Some out
            \<longrightarrow> (\<exists>Tcw s'. out = Returned Tcw s' \<and> deactivated s'))"
proof (intro conjI allI impI)
  show "TrackMonocular e im timestamp s = None \<longleftrightarrow> (\<forall>n. \<not> LocalMapping_isStopped e n)"
    using S by (simp add: TrackMonocular_def Let_def bind_eq_None_conv Check_mode_change_both_None [OF A])
next
  fix out
  assume "TrackMonocular e im timestamp s = Some out"
  then obtain s1 where c: "Check_mode_change e [Cout ''Localization mode started''] s = Some s1"
    and out: "out = Returned (fst (GrabImageMonocular e im timestamp
                     (mpTracker (Check_reset_and_load e (Check_reset e s1)))))
               (snapshot ((emit (Tracking_GrabImageMonocular timestamp) (Check_reset_and_load e (Check_reset e s1)))
                  \<lparr>mpTracker := snd (GrabImageMonocular e im timestamp
                     (mpTracker (Check_reset_and_load e (Check_reset e s1))))\<rparr>))"
    using S by (auto simp: TrackMonocular_def Let_def bind_eq_Some_conv)
  have "deactivated (snapshot ((emit (Tracking_GrabImageMonocular timestamp) (Check_reset_and_load e (Check_reset e s1)))
                  \<lparr>mpTracker := snd (GrabImageMonocular e im timestamp
                     (mpTracker (Check_reset_and_load e (Check_reset e s1))))\<rparr>))"
    by (rule deactivated_after_both [OF A D c, where r = "mbReset s1" and l = "mbResetAndLoad s1"
          and grab = "Tracking_GrabImageMonocular timestamp" and t = timestamp])
       (simp_all add: snapshot_def events_Check_reset events_Check_reset_and_load)
  with out show "\<exists>Tcw s'. out = Returned Tcw s' \<and> deactivated s'" by blast
qed


lemma Check_mode_change_both_at:
  assumes A: "mbActivateLocalizationMode s" and D: "mbDeactivateLocalizationMode s"
    and n: "LocalMapping_isStopped e n" "\<forall>i<n. \<not> LocalMapping_isStopped e i"
  shows "Check_mode_change e announce s =
     Some (s\<lparr>events := events s @ announce @ [LocalMapping_RequestStop]
                   @ replicate n (sleep_for_microseconds 1000)
                   @ [Tracking_InformOnlyTracking True, Tracking_InformOnlyTracking False,
                      LocalMapping_Release],
                mpTracker := InformOnlyTracking e False (InformOnlyTracking e True (mpTracker s)),
                mbActivateLocalizationMode := False, mbDeactivateLocalizationMode := False\<rparr>)"
  using Check_mode_change_both [OF A D, of e announce] n by blast

lemma TrackStereo_both_result:
  assumes A: "mbActivateLocalizationMode s" and D: "mbDeactivateLocalizationMode s"
    and S: "mSensor s = STEREO"
    and n: "LocalMapping_isStopped e n" "\<forall>i<n. \<not> LocalMapping_isStopped e i"
  shows "(let trk = InformOnlyTracking e False (InformOnlyTracking e True (mpTracker s));
              trk' = (if mbReset s then Reset_Tracking e trk else trk);
              g = GrabImageStereo e imLeft imRight timestamp trk'
          in TrackStereo e imLeft imRight timestamp s =
               Some (Returned (fst g)
                 (s\<lparr>events := events s @ [LocalMapping_RequestStop]
                        @ replicate n (sleep_for_microseconds 1000)
                        @ [Tracking_InformOnlyTracking True, Tracking_InformOnlyTracking False,
                           LocalMapping_Release]
                        @ (if mbReset s then [Tracking_Reset] else [])
                        @ [Tracking_GrabImageStereo timestamp],
                     mpTracker := snd g,
                     mbReset := False,
                     mbActivateLocalizationMode := False, mbDeactivateLocalizationMode := False,
                     mTrackingState := mState (snd g),
                     mTrackedMapPoints := mCurrentFrame_mvpMapPoints (snd g),
                     mTrackedKeyPointsUn := mCurrentFrame_mvKeysUn (snd g)\<rparr>)))"
  unfolding Let_def TrackStereo_def
  by (cases "mbReset s";
      simp add: S Check_mode_change_both_at [OF A D n] Check_reset_def call_Tracking_def
        snapshot_def emit_def;
      rule System.equality; simp)

lemma TrackRGBD_both_result:
  assumes A: "mbActivateLocalizationMode s" and D: "mbDeactivateLocalizationMode s"
    and S: "mSensor s = RGBD"
    and n: "LocalMapping_isStopped e n" "\<forall>i<n. \<not> LocalMapping_isStopped e i"
  shows "(let trk = InformOnlyTracking e False (InformOnlyTracking e True (mpTracker s));
              trk' = (if mbReset s then Reset_Tracking e trk else trk);
              g = GrabImageRGBD e im depthmap timestamp trk'
          in TrackRGBD e im depthmap timestamp s =
               Some (Returned (fst g)
                 (s\<lparr>events := events s @ [LocalMapping_RequestStop]
                        @ replicate n (sleep_for_microseconds 1000)
                        @ [Tracking_InformOnlyTracking True, Tracking_InformOnlyTracking False,
                           LocalMapping_Release]
                        @ (if mbReset s then [Tracking_Reset] else [])
                        @ [Tracking_GrabImageRGBD timestamp],
                     mpTracker := snd g,
                     mbReset := False,
                     mbActivateLocalizationMode := False, mbDeactivateLocalizationMode := False,
                     mTrackingState := mState (snd g),
                     mTrackedMapPoints := mCurrentFrame_mvpMapPoints (snd g),
                     mTrackedKeyPointsUn := mCurrentFrame_mvKeysUn (snd g)\<rparr>)))"
  unfolding Let_def TrackRGBD_def
  by (cases "mbReset s";
      simp add: S Check_mode_change_both_at [OF A D n] Check_reset_def call_Tracking_def
        snapshot_def emit_def;
      rule System.equality; simp)

lemma TrackMonocular_both_result:
  assumes A: "mbActivateLocalizationMode s" and D: "mbDeactivateLocalizationMode s"
    and S: "mSensor s = MONOCULAR"
    and n: "LocalMapping_isStopped e n" "\<forall>i<n. \<not> LocalMapping_isStopped e i"
  shows "(let trk = InformOnlyTracking e False (InformOnlyTracking e True (mpTracker s));
              trk' = (if mbReset s then Reset_Tracking e trk else trk);
              trk'' = (if mbResetAndLoad s then ResetAfterLoaded e trk' else trk');
              g = GrabImageMonocular e im timestamp trk''
          in TrackMonocular e im timestamp s =
               Some (Returned (fst g)
                 (s\<lparr>events := events s @ [Cout ''Localization mode started'', LocalMapping_RequestStop]
                        @ replicate n (sleep_for_microseconds 1000)
                        @ [Tracking_InformOnlyTracking True, Tracking_InformOnlyTracking False,
                           LocalMapping_Release]
                        @ (if mbReset s then [Tracking_Reset] else [])
                        @ (if mbResetAndLoad s then [Tracking_ResetAfterLoaded] else [])
                        @ [Tracking_GrabImageMonocular timestamp],
                     mpTracker := snd g,
                     mbReset := False, mbResetAndLoad := False,
                     mbActivateLocalizationMode := False, mbDeactivateLocalizationMode := False,
                     mTrackingState := mState (snd g),
                     mTrackedMapPoints := mCurrentFrame_mvpMapPoints (snd g),
                     mTrackedKeyPointsUn := mCurrentFrame_mvKeysUn (snd g)\<rparr>)))"
  unfolding Let_def TrackMonocular_def
  by (cases "mbReset s"; cases "mbResetAndLoad s";
      simp add: S Check_mode_change_both_at [OF A D n] Check_reset_def Check_reset_and_load_def
        call_Tracking_def snapshot_def emit_def;
      rule System.equality; simp)

text \<open>
  C7. When both the request to activate and the request to deactivate the localization
  mode are pending at an ingestion call (of any of the three modalities, the sensor being
  the one the call is for), the call does not return exactly when local mapping never
  reports that it has stopped. When local mapping first reports stopped at poll \<open>n\<close>, the
  call returns, and the state it returns is pinned: the calls made are the stop request,
  \<open>n\<close> sleeps, \<^verbatim>\<open>InformOnlyTracking(true)\<close>, \<^verbatim>\<open>InformOnlyTracking(false)\<close>, the release of local
  mapping, then the reset calls that are pending and the hand-over of the frame; the
  tracking engine has been told to track only and after that to map again, before it is
  reset and given the frame; both mode flags are clear. So whenever the call returns, the
  last mode the tracking engine was told is full mapping and the last thing local mapping
  was told is the release: deactivation wins.
\<close>

theorem deactivate_wins:
  assumes "mbActivateLocalizationMode s" and "mbDeactivateLocalizationMode s"
  shows
   "(mSensor s = STEREO \<longrightarrow>
       (TrackStereo e imLeft imRight timestamp s = None \<longleftrightarrow> (\<forall>n. \<not> LocalMapping_isStopped e n)) \<and>
       (\<forall>n. LocalMapping_isStopped e n \<and> (\<forall>i<n. \<not> LocalMapping_isStopped e i) \<longrightarrow>
          (let trk = InformOnlyTracking e False (InformOnlyTracking e True (mpTracker s));
               trk' = (if mbReset s then Reset_Tracking e trk else trk);
               g = GrabImageStereo e imLeft imRight timestamp trk'
           in TrackStereo e imLeft imRight timestamp s =
                Some (Returned (fst g)
                  (s\<lparr>events := events s @ [LocalMapping_RequestStop]
                         @ replicate n (sleep_for_microseconds 1000)
                         @ [Tracking_InformOnlyTracking True, Tracking_InformOnlyTracking False,
                            LocalMapping_Release]
                         @ (if mbReset s then [Tracking_Reset] else [])
                         @ [Tracking_GrabImageStereo timestamp],
                      mpTracker := snd g,
                      mbReset := False,
                      mbActivateLocalizationMode := False, mbDeactivateLocalizationMode := False,
                      mTrackingState := mState (snd g),
                      mTrackedMapPoints := mCurrentFrame_mvpMapPoints (snd g),
                      mTrackedKeyPointsUn := mCurrentFrame_mvKeysUn (snd g)\<rparr>)))) \<and>
       (\<forall>out. TrackStereo e imLeft imRight timestamp s = Some out
          \<longrightarrow> (\<exists>Tcw s'. out = Returned Tcw s' \<and> deactivated s'))) \<and>
    (mSensor s = RGBD \<longrightarrow>
       (TrackRGBD e im depthmap timestamp s = None \<longleftrightarrow> (\<forall>n. \<not> LocalMapping_isStopped e n)) \<and>
       (\<forall>n. LocalMapping_isStopped e n \<and> (\<forall>i<n. \<not> LocalMapping_isStopped e i) \<longrightarrow>
          (let trk = InformOnlyTracking e False (InformOnlyTracking e True (mpTracker s));
               trk' = (if mbReset s then Reset_Tracking e trk else trk);
               g = GrabImageRGBD e im depthmap timestamp trk'
           in TrackRGBD e im depthmap timestamp s =
                Some (Returned (fst g)
                  (s\<lparr>events := events s @ [LocalMapping_RequestStop]
                         @ replicate n (sleep_for_microseconds 1000)
                         @ [Tracking_InformOnlyTracking True, Tracking_InformOnlyTracking False,
                            LocalMapping_Release]
                         @ (if mbReset s then [Tracking_Reset] else [])
                         @ [Tracking_GrabImageRGBD timestamp],
                      mpTracker := snd g,
                      mbReset := False,
                      mbActivateLocalizationMode := False, mbDeactivateLocalizationMode := False,
                      mTrackingState := mState (snd g),
                      mTrackedMapPoints := mCurrentFrame_mvpMapPoints (snd g),
                      mTrackedKeyPointsUn := mCurrentFrame_mvKeysUn (snd g)\<rparr>)))) \<and>
       (\<forall>out. TrackRGBD e im depthmap timestamp s = Some out
          \<longrightarrow> (\<exists>Tcw s'. out = Returned Tcw s' \<and> deactivated s'))) \<and>
    (mSensor s = MONOCULAR \<longrightarrow>
       (TrackMonocular e im timestamp s = None \<longleftrightarrow> (\<forall>n. \<not> LocalMapping_isStopped e n)) \<and>
       (\<forall>n. LocalMapping_isStopped e n \<and> (\<forall>i<n. \<not> LocalMapping_isStopped e i) \<longrightarrow>
          (let trk = InformOnlyTracking e False (InformOnlyTracking e True (mpTracker s));
               trk' = (if mbReset s then Reset_Tracking e trk else trk);
               trk'' = (if mbResetAndLoad s then ResetAfterLoaded e trk' else trk');
               g = GrabImageMonocular e im timestamp trk''
           in TrackMonocular e im timestamp s =
                Some (Returned (fst g)
                  (s\<lparr>events := events s @ [Cout ''Localization mode started'', LocalMapping_RequestStop]
                         @ replicate n (sleep_for_microseconds 1000)
                         @ [Tracking_InformOnlyTracking True, Tracking_InformOnlyTracking False,
                            LocalMapping_Release]
                         @ (if mbReset s then [Tracking_Reset] else [])
                         @ (if mbResetAndLoad s then [Tracking_ResetAfterLoaded] else [])
                         @ [Tracking_GrabImageMonocular timestamp],
                      mpTracker := snd g,
                      mbReset := False, mbResetAndLoad := False,
                      mbActivateLocalizationMode := False, mbDeactivateLocalizationMode := False,
                      mTrackingState := mState (snd g),
                      mTrackedMapPoints := mCurrentFrame_mvpMapPoints (snd g),
                      mTrackedKeyPointsUn := mCurrentFrame_mvKeysUn (snd g)\<rparr>)))) \<and>
       (\<forall>out. TrackMonocular e im timestamp s = Some out
          \<longrightarrow> (\<exists>Tcw s'. out = Returned Tcw s' \<and> deactivated s')))"
proof (intro conjI impI allI)
  fix n
  assume "mSensor s = STEREO"
    and "LocalMapping_isStopped e n \<and> (\<forall>i<n. \<not> LocalMapping_isStopped e i)"
  then show "(let trk = InformOnlyTracking e False (InformOnlyTracking e True (mpTracker s));
               trk' = (if mbReset s then Reset_Tracking e trk else trk);
               g = GrabImageStereo e imLeft imRight timestamp trk'
           in TrackStereo e imLeft imRight timestamp s =
                Some (Returned (fst g)
                  (s\<lparr>events := events s @ [LocalMapping_RequestStop]
                         @ replicate n (sleep_for_microseconds 1000)
                         @ [Tracking_InformOnlyTracking True, Tracking_InformOnlyTracking False,
                            LocalMapping_Release]
                         @ (if mbReset s then [Tracking_Reset] else [])
                         @ [Tracking_GrabImageStereo timestamp],
                      mpTracker := snd g,
                      mbReset := False,
                      mbActivateLocalizationMode := False, mbDeactivateLocalizationMode := False,
                      mTrackingState := mState (snd g),
                      mTrackedMapPoints := mCurrentFrame_mvpMapPoints (snd g),
                      mTrackedKeyPointsUn := mCurrentFrame_mvKeysUn (snd g)\<rparr>)))"
    using TrackStereo_both_result [OF assms, of e n imLeft imRight timestamp] by blast
next
  fix n
  assume "mSensor s = RGBD"
    and "LocalMapping_isStopped e n \<and> (\<forall>i<n. \<not> LocalMapping_isStopped e i)"
  then show "(let trk = InformOnlyTracking e False (InformOnlyTracking e True (mpTracker s));
               trk' = (if mbReset s then Reset_Tracking e trk else trk);
               g = GrabImageRGBD e im depthmap timestamp trk'
           in TrackRGBD e im depthmap timestamp s =
                Some (Returned (fst g)
                  (s\<lparr>events := events s @ [LocalMapping_RequestStop]
                         @ replicate n (sleep_for_microseconds 1000)
                         @ [Tracking_InformOnlyTracking True, Tracking_InformOnlyTracking False,
                            LocalMapping_Release]
                         @ (if mbReset s then [Tracking_Reset] else [])
                         @ [Tracking_GrabImageRGBD timestamp],
                      mpTracker := snd g,
                      mbReset := False,
                      mbActivateLocalizationMode := False, mbDeactivateLocalizationMode := False,
                      mTrackingState := mState (snd g),
                      mTrackedMapPoints := mCurrentFrame_mvpMapPoints (snd g),
                      mTrackedKeyPointsUn := mCurrentFrame_mvKeysUn (snd g)\<rparr>)))"
    using TrackRGBD_both_result [OF assms, of e n im depthmap timestamp] by blast
next
  fix n
  assume "mSensor s = MONOCULAR"
    and "LocalMapping_isStopped e n \<and> (\<forall>i<n. \<not> LocalMapping_isStopped e i)"
  then show "(let trk = InformOnlyTracking e False (InformOnlyTracking e True (mpTracker s));
               trk' = (if mbReset s then Reset_Tracking e trk else trk);
               trk'' = (if mbResetAndLoad s then ResetAfterLoaded e trk' else trk');
               g = GrabImageMonocular e im timestamp trk''
           in TrackMonocular e im timestamp s =
                Some (Returned (fst g)
                  (s\<lparr>events := events s @ [Cout ''Localization mode started'', LocalMapping_RequestStop]
                         @ replicate n (sleep_for_microseconds 1000)
                         @ [Tracking_InformOnlyTracking True, Tracking_InformOnlyTracking False,
                            LocalMapping_Release]
                         @ (if mbReset s then [Tracking_Reset] else [])
                         @ (if mbResetAndLoad s then [Tracking_ResetAfterLoaded] else [])
                         @ [Tracking_GrabImageMonocular timestamp],
                      mpTracker := snd g,
                      mbReset := False, mbResetAndLoad := False,
                      mbActivateLocalizationMode := False, mbDeactivateLocalizationMode := False,
                      mTrackingState := mState (snd g),
                      mTrackedMapPoints := mCurrentFrame_mvpMapPoints (snd g),
                      mTrackedKeyPointsUn := mCurrentFrame_mvKeysUn (snd g)\<rparr>)))"
    using TrackMonocular_both_result [OF assms, of e n im timestamp] by blast
qed (use TrackStereo_deactivate_wins [OF assms] TrackRGBD_deactivate_wins [OF assms]
      TrackMonocular_deactivate_wins [OF assms] in blast)+

theorem deactivate_wins_witness:
  "mbActivateLocalizationMode
     (ex_System\<lparr>mbActivateLocalizationMode := True, mbDeactivateLocalizationMode := True\<rparr>) \<and>
   mbDeactivateLocalizationMode
     (ex_System\<lparr>mbActivateLocalizationMode := True, mbDeactivateLocalizationMode := True\<rparr>) \<and>
   mSensor (ex_System\<lparr>mbActivateLocalizationMode := True, mbDeactivateLocalizationMode := True\<rparr>)
     = STEREO \<and>
   LocalMapping_isStopped ex_env 2 \<and> \<not> LocalMapping_isStopped ex_env 0 \<and>
   \<not> LocalMapping_isStopped ex_env 1 \<and>
   TrackStereo ex_env [] [] 0
       (ex_System\<lparr>mbActivateLocalizationMode := True, mbDeactivateLocalizationMode := True\<rparr>)
     = Some (Returned None
         (ex_System\<lparr>events := [LocalMapping_RequestStop,
             sleep_for_microseconds 1000, sleep_for_microseconds 1000,
             Tracking_InformOnlyTracking True, Tracking_InformOnlyTracking False,
             LocalMapping_Release, Tracking_GrabImageStereo 0]\<rparr>)) \<and>
   deactivated
         (ex_System\<lparr>events := [LocalMapping_RequestStop,
             sleep_for_microseconds 1000, sleep_for_microseconds 1000,
             Tracking_InformOnlyTracking True, Tracking_InformOnlyTracking False,
             LocalMapping_Release, Tracking_GrabImageStereo 0]\<rparr>) \<and>
   TrackRGBD ex_env [] [] 0
       (ex_System\<lparr>mSensor := RGBD, mbActivateLocalizationMode := True,
                   mbDeactivateLocalizationMode := True\<rparr>)
     = Some (Returned None
         (ex_System\<lparr>mSensor := RGBD, events := [LocalMapping_RequestStop,
             sleep_for_microseconds 1000, sleep_for_microseconds 1000,
             Tracking_InformOnlyTracking True, Tracking_InformOnlyTracking False,
             LocalMapping_Release, Tracking_GrabImageRGBD 0]\<rparr>)) \<and>
   TrackMonocular ex_env [] 0
       (ex_System\<lparr>mSensor := MONOCULAR, mbActivateLocalizationMode := True,
                   mbDeactivateLocalizationMode := True\<rparr>)
     = Some (Returned None
         (ex_System\<lparr>mSensor := MONOCULAR, events := [Cout ''Localization mode started'',
             LocalMapping_RequestStop,
             sleep_for_microseconds 1000, sleep_for_microseconds 1000,
             Tracking_InformOnlyTracking True, Tracking_InformOnlyTracking False,
             LocalMapping_Release, Tracking_GrabImageMonocular 0]\<rparr>))"
proof -
  let ?s = "ex_System\<lparr>mbActivateLocalizationMode := True, mbDeactivateLocalizationMode := True\<rparr>"
  let ?r = "ex_System\<lparr>mSensor := RGBD, mbActivateLocalizationMode := True,
                   mbDeactivateLocalizationMode := True\<rparr>"
  let ?m = "ex_System\<lparr>mSensor := MONOCULAR, mbActivateLocalizationMode := True,
                   mbDeactivateLocalizationMode := True\<rparr>"
  have stops: "LocalMapping_isStopped ex_env 2 \<and> (\<forall>i<2. \<not> LocalMapping_isStopped ex_env i)"
    by (simp add: ex_env_def)
  have stops': "LocalMapping_isStopped ex_env 2 \<and> \<not> LocalMapping_isStopped ex_env 0 \<and>
      \<not> LocalMapping_isStopped ex_env 1"
    by (simp add: ex_env_def)
  have A: "mbActivateLocalizationMode ?s" and D: "mbDeactivateLocalizationMode ?s"
    and S: "mSensor ?s = STEREO"
    by (simp_all add: ex_System_def)
  note w = deactivate_wins [OF A D, of ex_env "[]" "[]" 0]
  note ws = mp [OF conjunct1 [OF w] S]
  note ws2 = mp [OF spec [OF conjunct1 [OF conjunct2 [OF ws]], of 2] stops]
  from ws2 have r1: "TrackStereo ex_env [] [] 0 ?s
     = Some (Returned None
         (ex_System\<lparr>events := [LocalMapping_RequestStop,
             sleep_for_microseconds 1000, sleep_for_microseconds 1000,
             Tracking_InformOnlyTracking True, Tracking_InformOnlyTracking False,
             LocalMapping_Release, Tracking_GrabImageStereo 0]\<rparr>))"
    by (simp add: Let_def ex_System_def ex_env_def ex_Tracking_def numeral_2_eq_2)
  with ws have d1: "deactivated
         (ex_System\<lparr>events := [LocalMapping_RequestStop,
             sleep_for_microseconds 1000, sleep_for_microseconds 1000,
             Tracking_InformOnlyTracking True, Tracking_InformOnlyTracking False,
             LocalMapping_Release, Tracking_GrabImageStereo 0]\<rparr>)"
    by blast
  have Ar: "mbActivateLocalizationMode ?r" and Dr: "mbDeactivateLocalizationMode ?r"
    and Sr: "mSensor ?r = RGBD"
    by simp_all
  note wr = deactivate_wins [OF Ar Dr, of ex_env _ _ 0 "[]" "[]"]
  note wrs = mp [OF conjunct1 [OF conjunct2 [OF wr]] Sr]
  note wrs2 = mp [OF spec [OF conjunct1 [OF conjunct2 [OF wrs]], of 2] stops]
  from wrs2 have r2: "TrackRGBD ex_env [] [] 0 ?r
     = Some (Returned None
         (ex_System\<lparr>mSensor := RGBD, events := [LocalMapping_RequestStop,
             sleep_for_microseconds 1000, sleep_for_microseconds 1000,
             Tracking_InformOnlyTracking True, Tracking_InformOnlyTracking False,
             LocalMapping_Release, Tracking_GrabImageRGBD 0]\<rparr>))"
    by (simp add: Let_def ex_System_def ex_env_def ex_Tracking_def numeral_2_eq_2)
  have Am: "mbActivateLocalizationMode ?m" and Dm: "mbDeactivateLocalizationMode ?m"
    and Sm: "mSensor ?m = MONOCULAR"
    by simp_all
  note wm = deactivate_wins [OF Am Dm, of ex_env _ _ 0 "[]"]
  note wms = mp [OF conjunct2 [OF conjunct2 [OF wm]] Sm]
  note wms2 = mp [OF spec [OF conjunct1 [OF conjunct2 [OF wms]], of 2] stops]
  from wms2 have r3: "TrackMonocular ex_env [] 0 ?m
     = Some (Returned None
         (ex_System\<lparr>mSensor := MONOCULAR, events := [Cout ''Localization mode started'',
             LocalMapping_RequestStop,
             sleep_for_microseconds 1000, sleep_for_microseconds 1000,
             Tracking_InformOnlyTracking True, Tracking_InformOnlyTracking False,
             LocalMapping_Release, Tracking_GrabImageMonocular 0]\<rparr>))"
    by (simp add: Let_def ex_System_def ex_env_def ex_Tracking_def numeral_2_eq_2)
  from A D S stops' r1 d1 r2 r3 show ?thesis by blast
qed

lemma Check_mode_change_shape:
  assumes "Check_mode_change e announce s = Some s1"
  shows "\<exists>evs trk. s1 = s\<lparr>events := evs, mpTracker := trk,
            mbActivateLocalizationMode := False, mbDeactivateLocalizationMode := False\<rparr>"
proof (cases "mbActivateLocalizationMode s")
  case A: True
  from assms A obtain n where
    s1: "s1 = (let s' = (call_Tracking (Tracking_InformOnlyTracking True) (InformOnlyTracking e True)
                 (slept 1000 n (emit LocalMapping_RequestStop (s\<lparr>events := events s @ announce\<rparr>))))
                 \<lparr>mbActivateLocalizationMode := False\<rparr>
               in if mbDeactivateLocalizationMode s'
                  then (emit LocalMapping_Release
                         (call_Tracking (Tracking_InformOnlyTracking False) (InformOnlyTracking e False) s'))
                         \<lparr>mbDeactivateLocalizationMode := False\<rparr>
                  else s')"
    unfolding Check_mode_change_def by (auto simp: bind_sleep_until Let_def)
  show ?thesis
  proof (cases "mbDeactivateLocalizationMode s")
    case True
    show ?thesis
      by (intro exI, rule System.equality;
          simp add: s1 Let_def True call_Tracking_def slept_def emit_def)
  next
    case False
    show ?thesis
      by (intro exI, rule System.equality;
          simp add: s1 Let_def False call_Tracking_def slept_def emit_def)
  qed
next
  case nA: False
  from assms nA have
    s1: "s1 = (if mbDeactivateLocalizationMode s
                  then (emit LocalMapping_Release
                         (call_Tracking (Tracking_InformOnlyTracking False) (InformOnlyTracking e False) s))
                         \<lparr>mbDeactivateLocalizationMode := False\<rparr>
                  else s)"
    unfolding Check_mode_change_def by auto
  show ?thesis
  proof (cases "mbDeactivateLocalizationMode s")
    case True
    show ?thesis
      by (intro exI, rule System.equality;
          simp add: s1 True nA call_Tracking_def slept_def emit_def)
  next
    case False
    show ?thesis
      by (intro exI, rule System.equality;
          simp add: s1 False nA call_Tracking_def slept_def emit_def)
  qed
qed

lemma mbResetAndLoad_Check_mode_change:
  assumes "Check_mode_change e announce s = Some s1"
  shows "mbResetAndLoad s1 = mbResetAndLoad s"
  using Check_mode_change_shape [OF assms] by auto

lemma TrackStereo_keeps_ResetAndLoad:
  assumes "TrackStereo e imLeft imRight timestamp s = Some (Returned Tcw s')"
  shows "mbResetAndLoad s' = mbResetAndLoad s"
proof -
  from assms obtain s1 where c: "Check_mode_change e [] s = Some s1"
    and s': "s' = snapshot ((emit (Tracking_GrabImageStereo timestamp) (Check_reset e s1))
                  \<lparr>mpTracker := snd (GrabImageStereo e imLeft imRight timestamp (mpTracker (Check_reset e s1)))\<rparr>)"
    by (auto simp: TrackStereo_def Let_def bind_eq_Some_conv split: if_splits)
  show ?thesis
    unfolding s' using mbResetAndLoad_Check_mode_change [OF c] by (simp add: snapshot_def)
qed

lemma TrackRGBD_keeps_ResetAndLoad:
  assumes "TrackRGBD e im depthmap timestamp s = Some (Returned Tcw s')"
  shows "mbResetAndLoad s' = mbResetAndLoad s"
proof -
  from assms obtain s1 where c: "Check_mode_change e [] s = Some s1"
    and s': "s' = snapshot ((emit (Tracking_GrabImageRGBD timestamp) (Check_reset e s1))
                  \<lparr>mpTracker := snd (GrabImageRGBD e im depthmap timestamp (mpTracker (Check_reset e s1)))\<rparr>)"
    by (auto simp: TrackRGBD_def Let_def bind_eq_Some_conv split: if_splits)
  show ?thesis
    unfolding s' using mbResetAndLoad_Check_mode_change [OF c] by (simp add: snapshot_def)
qed

lemma mode_flags_cleared_Check_mode_change:
  assumes "Check_mode_change e announce s = Some s1"
  shows "\<not> mbActivateLocalizationMode s1 \<and> \<not> mbDeactivateLocalizationMode s1 \<and> mbReset s1 = mbReset s"
  using Check_mode_change_shape [OF assms] by auto

lemma TrackMonocular_consumes_all_four:
  assumes "TrackMonocular e im timestamp s = Some (Returned Tcw s')"
  shows "\<not> mbActivateLocalizationMode s' \<and> \<not> mbDeactivateLocalizationMode s' \<and>
         \<not> mbReset s' \<and> \<not> mbResetAndLoad s'"
proof -
  from assms obtain s1 where c: "Check_mode_change e [Cout ''Localization mode started''] s = Some s1"
    and s': "s' = snapshot ((emit (Tracking_GrabImageMonocular timestamp) (Check_reset_and_load e (Check_reset e s1)))
                  \<lparr>mpTracker := snd (GrabImageMonocular e im timestamp
                     (mpTracker (Check_reset_and_load e (Check_reset e s1))))\<rparr>)"
    by (auto simp: TrackMonocular_def Let_def bind_eq_Some_conv split: if_splits)
  show ?thesis
    unfolding s' using mode_flags_cleared_Check_mode_change [OF c]
    by (simp add: snapshot_def Check_reset_def Check_reset_and_load_def call_Tracking_def emit_def)
qed

text \<open>
  C3. With a reset-and-load request pending and nothing else, \<^verbatim>\<open>TrackStereo\<close> and
  \<^verbatim>\<open>TrackRGBD\<close> hand the frame to the tracking engine and return with the request still
  pending and \<^verbatim>\<open>ResetAfterLoaded\<close> never called; \<^verbatim>\<open>TrackMonocular\<close> on the same request
  calls \<^verbatim>\<open>ResetAfterLoaded\<close>, clears the flag and then hands the frame over.
\<close>

theorem ResetAndLoad_not_consumed_by_stereo_and_RGBD:
  "TrackStereo ex_env [] [] 0 (ex_System\<lparr>mbResetAndLoad := True\<rparr>) =
     Some (Returned None
       (ex_System\<lparr>mbResetAndLoad := True, events := [Tracking_GrabImageStereo 0]\<rparr>)) \<and>
   TrackRGBD ex_env [] [] 0 (ex_System\<lparr>mSensor := RGBD, mbResetAndLoad := True\<rparr>) =
     Some (Returned None
       (ex_System\<lparr>mSensor := RGBD, mbResetAndLoad := True, events := [Tracking_GrabImageRGBD 0]\<rparr>)) \<and>
   TrackMonocular ex_env [] 0 (ex_System\<lparr>mSensor := MONOCULAR, mbResetAndLoad := True\<rparr>) =
     Some (Returned None
       (ex_System\<lparr>mSensor := MONOCULAR, mbResetAndLoad := False,
          events := [Tracking_ResetAfterLoaded, Tracking_GrabImageMonocular 0]\<rparr>))"
  by (simp add: TrackStereo_def TrackRGBD_def TrackMonocular_def Check_mode_change_def
      Check_reset_def Check_reset_and_load_def call_Tracking_def snapshot_def emit_def
      ex_System_def ex_env_def ex_Tracking_def)

section \<open>Saving the map\<close>

lemma Ok_or_Lost_codes:
  "(x = 3 \<or> x = 2) \<longleftrightarrow> x \<in> eTrackingState_code ` {OK, LOST}"
  by auto







section \<open>Properties of the suffix test\<close>

lemma find_Some_holds: "find P xs = Some x \<Longrightarrow> P x \<and> x \<in> set xs"
  by (induction xs) (auto split: if_splits)

lemma has_suffix_iff:
  assumes "length str < 2 ^ 64" "length sfx < 2 ^ 64"
  shows "has_suffix str sfx \<longleftrightarrow> suffix sfx str"
proof (cases "length sfx \<le> length str")
  case True
  then have "(2 ^ 64 + length str - length sfx) = 2 ^ 64 + (length str - length sfx)"
    by simp
  moreover have "length str - length sfx < 2 ^ 64"
    using assms by simp
  ultimately have pos: "(2 ^ 64 + length str - length sfx) mod 2 ^ 64 = length str - length sfx"
    by (metis mod_add_self1 mod_less)
  have "string_find str sfx (length str - length sfx) \<noteq> None \<longleftrightarrow> drop (length str - length sfx) str = sfx"
  proof
    assume "string_find str sfx (length str - length sfx) \<noteq> None"
    then obtain i where i: "string_find str sfx (length str - length sfx) = Some i" by blast
    then have "(i + length sfx \<le> length str \<and> take (length sfx) (drop i str) = sfx)
       \<and> i \<in> set [length str - length sfx ..< Suc (length str)]"
      unfolding string_find_def by (rule find_Some_holds)
    then have "i + length sfx \<le> length str" "take (length sfx) (drop i str) = sfx"
      and "i \<in> set [length str - length sfx ..< Suc (length str)]"
      by simp_all
    then have "i = length str - length sfx" using True by auto
    with \<open>take (length sfx) (drop i str) = sfx\<close> True
    show "drop (length str - length sfx) str = sfx" by simp
  next
    assume d: "drop (length str - length sfx) str = sfx"
    have "\<exists>x \<in> set [length str - length sfx ..< Suc (length str)].
            x + length sfx \<le> length str \<and> take (length sfx) (drop x str) = sfx"
      using True d by (intro bexI [of _ "length str - length sfx"]) auto
    then show "string_find str sfx (length str - length sfx) \<noteq> None"
      unfolding string_find_def find_None_iff by blast
  qed
  also have "\<dots> \<longleftrightarrow> suffix sfx str"
    using True by (metis suffix_drop suffix_def append_eq_conv_conj length_append add_diff_cancel_right' length_drop diff_diff_cancel)
  finally show ?thesis unfolding has_suffix_def Let_def pos .
next
  case False
  then have "string_find str sfx p = None" for p
    unfolding string_find_def by (simp add: find_None_iff)
  moreover have "\<not> suffix sfx str" using False by (auto dest: suffix_length_le)
  ultimately show ?thesis by (simp add: has_suffix_def)
qed

section \<open>Loading a map\<close>

lemma reconstruct_loop_fold:
  "fst (reconstruct_loop vpKFS n s) = fold max (map mnFrameId vpKFS) n"
proof (induction vpKFS arbitrary: n s)
  case Nil
  then show ?case by simp
next
  case (Cons it vpKFS)
  have "(if n < mnFrameId it then mnFrameId it else n) = max (mnFrameId it) n"
    by (simp add: max_def)
  then show ?case using Cons.IH by simp
qed

lemma reconstruct_loop_max:
  "fst (reconstruct_loop vpKFS n s) = Max (insert n (mnFrameId ` set vpKFS))"
proof -
  have "Max (insert n (mnFrameId ` set vpKFS)) = Max (set (n # map mnFrameId vpKFS))"
    by simp
  also have "\<dots> = fold max (map mnFrameId vpKFS) n"
    by (rule Max.set_eq_fold)
  finally show ?thesis by (simp add: reconstruct_loop_fold)
qed

lemma reconstruct_loop_state:
  "snd (reconstruct_loop vpKFS n s) =
     s\<lparr>events := events s @ concat (map (\<lambda>it. [KeyFrame_SetORBvocabulary (mnId it), KeyFrame_ComputeBoW (mnId it)]) vpKFS)\<rparr>"
  by (induction vpKFS arbitrary: n s) (simp_all add: emit_def)


lemma deserialize_next_frame_id:
  assumes "deserialize content w s = Some (w', s')"
  shows "Frame_nNextId w' = Max (insert 0 (mnFrameId ` set (GetAllKeyFrames (mpMap s'))))"
  using assms unfolding deserialize_def Let_def
  by (auto simp: reconstruct_loop_max reconstruct_loop_state emit_def
      split: file_content.splits list.splits serialized.splits)

text \<open>
  C4. A map file whose keyframes have the frame ids 5, 3 and 0 is loaded, by \<^verbatim>\<open>LoadMap\<close>
  and by \<^verbatim>\<open>LoadMapDuring\<close>: afterwards \<^verbatim>\<open>Frame::nNextId\<close> is 5, the largest loaded frame id
  itself, not 6.
\<close>

theorem next_frame_id_is_largest_loaded_id:
  "(case LoadMap ''map.bin'' ex_World ex_System of
      Returned loaded (w', s') \<Rightarrow>
        loaded \<and> map mnFrameId (GetAllKeyFrames (mpMap s')) = [5, 3, 0] \<and> Frame_nNextId w' = 5
    | _ \<Rightarrow> False) \<and>
   (case LoadMapDuring ex_env ''map.bin'' ex_World ex_System of
      Some (Returned u (w', s')) \<Rightarrow>
        map mnFrameId (GetAllKeyFrames (mpMap s')) = [5, 3, 0] \<and> Frame_nNextId w' = 5
    | _ \<Rightarrow> False)"
  by (simp add: LoadMap_def LoadMapDuring_def deserialize_def sleep_until.simps emit_def
      ex_World_def process_start_def ex_System_def ex_env_def ex_Map_def ex_K2_def ex_K1_def
      ex_root_def Let_def)

lemma has_suffix_Nil_bin [simp]: "\<not> has_suffix [] ''.bin''"
  by (simp add: has_suffix_iff)


lemma LoadMap_missing:
  assumes "files w filename = None"
  shows "LoadMap filename w s =
     Returned False
       (w, s\<lparr>events := events s @
          [Cerr (''Cannot Open Mapfile: '' @ mapfile s @ '' , You need create it first!'')]\<rparr>)"
  using assms by (simp add: LoadMap_def emit_def)

lemma System_ctor_missing_map:
  assumes st: "FileStorage_isOpened e strSettingsFile"
    and voc: "load_vocabulary e strVocFile = Some voc"
    and miss: "files w strMapFile = None"
  shows "System_ctor e raw strVocFile strSettingsFile sensor bUseViewer strMapFile w =
     Returned ()
       (w, raw\<lparr>mSensor := sensor, mpVocabulary := voc,
               mpKeyFrameDatabase := new_KeyFrameDatabase voc, mpMap := new_Map,
               mpTracker := Tracking_ctor e strSettingsFile sensor False,
               mpViewer := bUseViewer,
               mbReset := False, mbResetAndLoad := False,
               mbActivateLocalizationMode := False, mbDeactivateLocalizationMode := False,
               mTrackedMapPoints := [], mTrackedKeyPointsUn := [],
               mapfile := (if has_suffix strMapFile ''.bin'' then strMapFile else []),
               events :=
                 (if has_suffix strMapFile ''.bin''
                  then [Cerr (''Cannot Open Mapfile: '' @ strMapFile @ '' , You need create it first!'')]
                  else [])
                 @ ctor_events strSettingsFile sensor bUseViewer False\<rparr>)"
proof (cases "has_suffix strMapFile ''.bin''")
  case True
  then have ne: "strMapFile \<noteq> []" by auto
  show ?thesis
    unfolding System_ctor_def Let_def
    by (cases bUseViewer; simp add: st voc True ne LoadMap_missing miss;
        rule System.equality; simp add: emit_def ctor_events_def)
next
  case False
  show ?thesis
    unfolding System_ctor_def Let_def
    by (cases bUseViewer; simp add: st voc False;
        rule System.equality; simp add: emit_def ctor_events_def)
qed


lemma has_suffix_drop:
  assumes "length str < 2 ^ 64" "length sfx < 2 ^ 64"
  shows "has_suffix str sfx \<longleftrightarrow>
           length sfx \<le> length str \<and> drop (length str - length sfx) str = sfx"
proof -
  have "suffix sfx str \<longleftrightarrow> length sfx \<le> length str \<and> drop (length str - length sfx) str = sfx"
  proof
    assume "suffix sfx str"
    then obtain zs where "str = zs @ sfx" by (auto simp: suffix_def)
    then show "length sfx \<le> length str \<and> drop (length str - length sfx) str = sfx" by simp
  next
    assume "length sfx \<le> length str \<and> drop (length str - length sfx) str = sfx"
    then show "suffix sfx str" by (metis suffix_drop)
  qed
  then show ?thesis using has_suffix_iff [OF assms] by simp
qed

text \<open>
  C9. When the map file cannot be opened, \<^verbatim>\<open>LoadMap\<close> returns false and changes neither
  the map, nor the index, nor anything else but the console; and the constructor, given
  settings that open and a vocabulary that loads, returns (it does not exit) with a new
  empty map and a new index bound to the vocabulary, having passed \<^verbatim>\<open>bReuseMap = false\<close> to
  the frame drawer and the tracking engine.
\<close>

theorem missing_map_file_is_not_fatal:
  "(files w filename = None \<longrightarrow>
      LoadMap filename w s =
        Returned False
          (w, s\<lparr>events := events s @
             [Cerr (''Cannot Open Mapfile: '' @ mapfile s @ '' , You need create it first!'')]\<rparr>)) \<and>
   (FileStorage_isOpened e strSettingsFile \<and> load_vocabulary e strVocFile = Some voc \<and>
    files w strMapFile = None \<longrightarrow>
      System_ctor e raw strVocFile strSettingsFile sensor bUseViewer strMapFile w =
        Returned ()
          (w, raw\<lparr>mSensor := sensor, mpVocabulary := voc,
                  mpKeyFrameDatabase := new_KeyFrameDatabase voc, mpMap := new_Map,
                  mpTracker := Tracking_ctor e strSettingsFile sensor False,
                  mpViewer := bUseViewer,
                  mbReset := False, mbResetAndLoad := False,
                  mbActivateLocalizationMode := False, mbDeactivateLocalizationMode := False,
                  mTrackedMapPoints := [], mTrackedKeyPointsUn := [],
                  mapfile := (if has_suffix strMapFile ''.bin'' then strMapFile else []),
                  events :=
                    (if has_suffix strMapFile ''.bin''
                     then [Cerr (''Cannot Open Mapfile: '' @ strMapFile @ '' , You need create it first!'')]
                     else [])
                    @ ctor_events strSettingsFile sensor bUseViewer False\<rparr>))"
  using LoadMap_missing [of w filename s]
    System_ctor_missing_map [of e strSettingsFile strVocFile voc w strMapFile raw sensor bUseViewer]
  by blast

theorem missing_map_file_is_not_fatal_witness:
  "files ex_World ''missing.bin'' = None \<and>
   LoadMap ''missing.bin'' ex_World ex_System =
     Returned False
       (ex_World, ex_System\<lparr>events :=
          [Cerr ''Cannot Open Mapfile:  , You need create it first!'']\<rparr>) \<and>
   FileStorage_isOpened ex_env ''settings.yaml'' \<and>
   load_vocabulary ex_env ''ORBvoc.txt'' = Some (ORBVocabulary [1, 2]) \<and>
   System_ctor ex_env ex_System ''ORBvoc.txt'' ''settings.yaml'' STEREO False ''missing.bin'' ex_World =
     Returned ()
       (ex_World,
        ex_System\<lparr>mpVocabulary := ORBVocabulary [1, 2],
          mpKeyFrameDatabase := new_KeyFrameDatabase (ORBVocabulary [1, 2]), mpMap := new_Map,
          mpTracker := ex_Tracking, mapfile := ''missing.bin'',
          events := [Cerr ''Cannot Open Mapfile: missing.bin , You need create it first!'',
            new_FrameDrawer False, new_MapDrawer ''settings.yaml'',
            new_Tracking ''settings.yaml'' STEREO False,
            new_LocalMapping False, thread_LocalMapping_Run,
            new_LoopClosing True, thread_LoopClosing_Run,
            Tracking_SetLocalMapper, Tracking_SetLoopClosing,
            LocalMapping_SetTracker, LocalMapping_SetLoopCloser,
            LoopClosing_SetTracker, LoopClosing_SetLocalMapper]\<rparr>)"
proof -
  have m: "files ex_World ''missing.bin'' = None"
    by (simp add: ex_World_def process_start_def)
  have st: "FileStorage_isOpened ex_env ''settings.yaml''"
    by (simp add: ex_env_def)
  have htxt: "has_suffix ''ORBvoc.txt'' ''.txt''" by (simp add: has_suffix_drop)
  have bin: "has_suffix ''missing.bin'' ''.bin''" by (simp add: has_suffix_drop)
  have voc: "load_vocabulary ex_env ''ORBvoc.txt'' = Some (ORBVocabulary [1, 2])"
    by (simp add: load_vocabulary_def htxt ex_env_def)
  note t = missing_map_file_is_not_fatal [of ex_World "''missing.bin''" ex_System ex_env
      "''settings.yaml''" "''ORBvoc.txt''" "ORBVocabulary [1, 2]" "''missing.bin''" ex_System STEREO False]
  from t m have a: "LoadMap ''missing.bin'' ex_World ex_System =
        Returned False
          (ex_World, ex_System\<lparr>events := events ex_System @
             [Cerr (''Cannot Open Mapfile: '' @ mapfile ex_System @ '' , You need create it first!'')]\<rparr>)"
    by blast
  from t m st voc have b: "System_ctor ex_env ex_System ''ORBvoc.txt'' ''settings.yaml'' STEREO False ''missing.bin'' ex_World =
        Returned ()
          (ex_World, ex_System\<lparr>mSensor := STEREO, mpVocabulary := ORBVocabulary [1, 2],
                  mpKeyFrameDatabase := new_KeyFrameDatabase (ORBVocabulary [1, 2]), mpMap := new_Map,
                  mpTracker := Tracking_ctor ex_env ''settings.yaml'' STEREO False,
                  mpViewer := False,
                  mbReset := False, mbResetAndLoad := False,
                  mbActivateLocalizationMode := False, mbDeactivateLocalizationMode := False,
                  mTrackedMapPoints := [], mTrackedKeyPointsUn := [],
                  mapfile := (if has_suffix ''missing.bin'' ''.bin'' then ''missing.bin'' else []),
                  events :=
                    (if has_suffix ''missing.bin'' ''.bin''
                     then [Cerr (''Cannot Open Mapfile: '' @ ''missing.bin'' @ '' , You need create it first!'')]
                     else [])
                    @ ctor_events ''settings.yaml'' STEREO False False\<rparr>)"
    by blast
  show ?thesis
    unfolding a b using m st voc
    by (simp add: bin ex_System_def ctor_events_def ex_env_def)
qed

section \<open>Properties of the trajectory export\<close>

lemma traverse_spanning_tree_chain:
  "traverse_spanning_tree Trw K =
     (case find (\<lambda>A. \<not> isBad A) (parent_chain K) of
        None \<Rightarrow> None
      | Some A \<Rightarrow> Some (foldl (*) Trw (map mTcp (takeWhile isBad (parent_chain K))), A))"
proof (induction Trw K rule: traverse_spanning_tree.induct)
  case (1 Trw pKF)
  show ?case
  proof (cases "isBad pKF")
    case False
    then show ?thesis
      by (subst traverse_spanning_tree.simps, subst (1 2) parent_chain.simps) simp
  next
    case bad: True
    show ?thesis
    proof (cases "GetParent pKF")
      case None
      with bad show ?thesis
        by (subst traverse_spanning_tree.simps, subst (1 2) parent_chain.simps)
           (simp split: option.splits)
    next
      case (Some parent)
      from "1.IH" [OF bad Some] bad Some show ?thesis
        by (subst traverse_spanning_tree.simps, subst (1 2) parent_chain.simps)
           (simp split: option.splits)
    qed
  qed
qed

lemma frame_Tcw_recovered: "frame_Tcw Two lit K = recovered_Tcw Two lit K"
  by (simp add: frame_Tcw_def recovered_Tcw_def first_live_ancestor_def accumulated_def
      traverse_spanning_tree_chain split: option.splits)

lemma TUM_loop_lines:
  "SaveTrajectoryTUM_loop e Two lits lRit lT lbL = Some ls \<Longrightarrow>
     ls = map (\<lambda>(lit, K, t, lost). TUM_line_of e Two lit K t)
            (filter (\<lambda>(lit, K, t, lost). \<not> lost) (zip lits (zip lRit (zip lT lbL))))"
proof (induction e Two lits lRit lT lbL arbitrary: ls rule: SaveTrajectoryTUM_loop.induct)
  case (1 e Two lRit lT lbL)
  then show ?case by simp
next
  case (2 e Two lit lits pKF lRit t lT lost lbL)
  show ?case
  proof (cases lost)
    case True
    with 2 show ?thesis by simp
  next
    case False
    with "2.prems" obtain Tcw ls' where
      T: "frame_Tcw Two lit pKF = Some Tcw"
      and L: "SaveTrajectoryTUM_loop e Two lits lRit lT lbL = Some ls'"
      and ls: "ls = TUM_line t (twc_of Tcw) (toQuaternion e (Rwc_of Tcw)) # ls'"
      by (auto split: option.splits)
    from "2.IH"(2) [OF False T L] have "ls' = map (\<lambda>(lit, K, t, lost). TUM_line_of e Two lit K t)
            (filter (\<lambda>(lit, K, t, lost). \<not> lost) (zip lits (zip lRit (zip lT lbL))))" .
    with False T ls show ?thesis
      by (simp add: TUM_line_of_def frame_Tcw_recovered)
  qed
qed simp_all

lemma KITTI_loop_lines:
  "SaveTrajectoryKITTI_loop Two lits lRit lT = Some ls \<Longrightarrow>
     ls = map (\<lambda>(lit, K, t). KITTI_line_of Two lit K) (zip lits (zip lRit lT))"
proof (induction Two lits lRit lT arbitrary: ls rule: SaveTrajectoryKITTI_loop.induct)
  case (1 Two lRit lT)
  then show ?case by simp
next
  case (2 Two lit lits pKF lRit t lT)
  from "2.prems" obtain Tcw ls' where
      T: "frame_Tcw Two lit pKF = Some Tcw"
      and L: "SaveTrajectoryKITTI_loop Two lits lRit lT = Some ls'"
      and ls: "ls = KITTI_line (Rwc_of Tcw) (twc_of Tcw) # ls'"
      by (auto split: option.splits)
  from "2.IH" [OF T L] have "ls' = map (\<lambda>(lit, K, t). KITTI_line_of Two lit K) (zip lits (zip lRit lT))" .
  with T ls show ?case
    by (simp add: KITTI_line_of_def frame_Tcw_recovered)
qed simp_all

lemma KeyFrame_loop_lines:
  "SaveKeyFrameTrajectoryTUM_loop e vpKFs = map (keyframe_line e) (filter (\<lambda>pKF. \<not> isBad pKF) vpKFs)"
  by (induction vpKFs) (simp_all add: keyframe_line_def)

lemma rigid_as_transform:
  assumes "rigid Tcw"
  shows "Tcw = transform_of (rowRange_colRange_0_3 Tcw) (rowRange_0_3_col_3 Tcw)"
proof (rule cvMat4.expand, intro conjI)
  show "row0 Tcw = row0 (transform_of (rowRange_colRange_0_3 Tcw) (rowRange_0_3_col_3 Tcw))"
    by (rule vec4.expand)
       (simp add: transform_of_def rowRange_colRange_0_3_def rowRange_0_3_col_3_def)
  show "row1 Tcw = row1 (transform_of (rowRange_colRange_0_3 Tcw) (rowRange_0_3_col_3 Tcw))"
    by (rule vec4.expand)
       (simp add: transform_of_def rowRange_colRange_0_3_def rowRange_0_3_col_3_def)
  show "row2 Tcw = row2 (transform_of (rowRange_colRange_0_3 Tcw) (rowRange_0_3_col_3 Tcw))"
    by (rule vec4.expand)
       (simp add: transform_of_def rowRange_colRange_0_3_def rowRange_0_3_col_3_def)
  show "row3 Tcw = row3 (transform_of (rowRange_colRange_0_3 Tcw) (rowRange_0_3_col_3 Tcw))"
    using assms by (simp add: rigid_def transform_of_def)
qed

lemma transform_of_times:
  "transform_of A (neg3 (mat3_vec A v)) * transform_of B v = transform_of (mat3_mul A B) (Vec3 0 0 0)"
  by (simp add: transform_of_def times_cvMat4_def row_times_def dot4_def col0_def col1_def
      col2_def col3_def mat3_mul_def mat3_vec_def dot3_def t3_def neg3_def)

lemma transform_of_eye3: "transform_of eye3 (Vec3 0 0 0) = 1"
  by (simp add: transform_of_def eye3_def one_cvMat4_def)

lemma rigid_inverse:
  assumes "rigid Tcw"
  shows "transform_of (Rwc_of Tcw) (twc_of Tcw) * Tcw = 1"
proof -
  let ?R = "rowRange_colRange_0_3 Tcw" and ?t = "rowRange_0_3_col_3 Tcw"
  have "transform_of (Rwc_of Tcw) (twc_of Tcw) * Tcw
        = transform_of (t3 ?R) (neg3 (mat3_vec (t3 ?R) ?t)) * transform_of ?R ?t"
    using rigid_as_transform [OF assms] by (simp add: Rwc_of_def twc_of_def)
  also have "\<dots> = transform_of (mat3_mul (t3 ?R) ?R) (Vec3 0 0 0)"
    by (rule transform_of_times)
  also have "\<dots> = 1"
    using assms by (simp add: rigid_def transform_of_eye3)
  finally show ?thesis .
qed


lemma KITTI_emits_every_frame:
  "SaveTrajectoryKITTI_loop Two lits lRit lT = Some ls \<Longrightarrow> length ls = length lits"
  by (induction Two lits lRit lT arbitrary: ls rule: SaveTrajectoryKITTI_loop.induct)
     (auto split: option.splits)

lemma TUM_skips_lost:
  "SaveTrajectoryTUM_loop e Two lits lRit lT lbL = Some ls \<Longrightarrow>
     length ls = length (filter Not (take (length lits) lbL))"
  by (induction e Two lits lRit lT lbL arbitrary: ls rule: SaveTrajectoryTUM_loop.induct)
     (auto split: option.splits if_splits)

lemma sort_lId_head:
  assumes "sort_lId vpKFs = kf0 # rest"
  shows "kf0 \<in> set vpKFs \<and> (\<forall>k \<in> set vpKFs. mnId kf0 \<le> mnId k)"
proof -
  have s: "set (kf0 # rest) = set vpKFs"
    using assms unfolding sort_lId_def by (metis set_sort)
  have "sorted (map mnId (kf0 # rest))"
    using assms unfolding sort_lId_def by (metis sorted_sort_key)
  then have "\<forall>k \<in> set (kf0 # rest). mnId kf0 \<le> mnId k" by auto
  with s show ?thesis by auto
qed

lemma TUM_loop_returns:
  assumes "length lits = length lRit" "length lRit = length lT" "length lT = length lbL"
    and "\<forall>(lit, K, t, lost) \<in> set (zip lits (zip lRit (zip lT lbL))).
           \<not> lost \<longrightarrow> first_live_ancestor K \<noteq> None"
  shows "\<exists>ls. SaveTrajectoryTUM_loop e Two lits lRit lT lbL = Some ls"
  using assms
proof (induction lits lRit lT lbL rule: list_induct4)
  case Nil
  then show ?case by simp
next
  case (Cons lit lits pKF lRit t lT lost lbL)
  from Cons.prems have rest: "\<forall>(lit, K, t, lost) \<in> set (zip lits (zip lRit (zip lT lbL))).
           \<not> lost \<longrightarrow> first_live_ancestor K \<noteq> None"
    by simp
  from Cons.IH [OF rest] obtain ls where ls: "SaveTrajectoryTUM_loop e Two lits lRit lT lbL = Some ls"
    by blast
  show ?case
  proof (cases lost)
    case True
    with ls show ?thesis by simp
  next
    case False
    with Cons.prems have "first_live_ancestor pKF \<noteq> None" by simp
    then obtain Tcw where "frame_Tcw Two lit pKF = Some Tcw"
      by (auto simp: frame_Tcw_recovered recovered_Tcw_def)
    with False ls show ?thesis by simp
  qed
qed

lemma KITTI_loop_returns:
  assumes "length lits = length lRit" "length lRit = length lT"
    and "\<forall>(lit, K, t) \<in> set (zip lits (zip lRit lT)). first_live_ancestor K \<noteq> None"
  shows "\<exists>ls. SaveTrajectoryKITTI_loop Two lits lRit lT = Some ls"
  using assms
proof (induction lits lRit lT rule: list_induct3)
  case Nil
  then show ?case by simp
next
  case (Cons lit lits pKF lRit t lT)
  from Cons.prems have rest: "\<forall>(lit, K, t) \<in> set (zip lits (zip lRit lT)). first_live_ancestor K \<noteq> None"
    by simp
  from Cons.IH [OF rest] obtain ls where ls: "SaveTrajectoryKITTI_loop Two lits lRit lT = Some ls"
    by blast
  from Cons.prems have "first_live_ancestor pKF \<noteq> None" by simp
  then obtain Tcw where "frame_Tcw Two lit pKF = Some Tcw"
    by (auto simp: frame_Tcw_recovered recovered_Tcw_def)
  with ls show ?case by simp
qed

lemma sort_lId_nonempty:
  assumes "vpKFs \<noteq> []"
  shows "\<exists>kf0 rest. sort_lId vpKFs = kf0 # rest"
proof -
  have "length (sort_lId vpKFs) = length vpKFs" by (simp add: sort_lId_def)
  with assms have "sort_lId vpKFs \<noteq> []" by auto
  then show ?thesis by (cases "sort_lId vpKFs") auto
qed

lemma SaveTrajectoryTUM_returns:
  assumes m: "mSensor s \<noteq> MONOCULAR"
    and kfs: "GetAllKeyFrames (mpMap s) \<noteq> []"
    and wf: "log_well_formed (mpTracker s)"
  shows "\<exists>kf0 \<in> set (GetAllKeyFrames (mpMap s)).
           (\<forall>k \<in> set (GetAllKeyFrames (mpMap s)). mnId kf0 \<le> mnId k) \<and>
           SaveTrajectoryTUM e filename w s =
             Returned ()
               (write_lines e filename
                  (map (\<lambda>(lit, K, t, lost). TUM_line_of e (GetPoseInverse kf0) lit K t)
                     (filter (\<lambda>(lit, K, t, lost). \<not> lost) (log_entries (mpTracker s)))) w,
                s\<lparr>events := events s @
                   [Cout (''Saving camera trajectory to '' @ filename @ '' ...''),
                    Cout ''trajectory saved!'']\<rparr>)"
proof -
  from sort_lId_nonempty [OF kfs] obtain kf0 rest where
    h: "sort_lId (GetAllKeyFrames (mpMap s)) = kf0 # rest" by blast
  from wf have "\<exists>ls. SaveTrajectoryTUM_loop e (GetPoseInverse kf0) (mlRelativeFramePoses (mpTracker s))
              (mlpReferences (mpTracker s)) (mlFrameTimes (mpTracker s)) (mlbLost (mpTracker s)) = Some ls"
    unfolding log_well_formed_def log_entries_def
    by (intro TUM_loop_returns) simp_all
  then obtain ls where l: "SaveTrajectoryTUM_loop e (GetPoseInverse kf0) (mlRelativeFramePoses (mpTracker s))
              (mlpReferences (mpTracker s)) (mlFrameTimes (mpTracker s)) (mlbLost (mpTracker s)) = Some ls"
    by blast
  have ls: "ls = map (\<lambda>(lit, K, t, lost). TUM_line_of e (GetPoseInverse kf0) lit K t)
                     (filter (\<lambda>(lit, K, t, lost). \<not> lost) (log_entries (mpTracker s)))"
    using TUM_loop_lines [OF l] by (simp add: log_entries_def)
  have "SaveTrajectoryTUM e filename w s =
             Returned ()
               (write_lines e filename ls w,
                s\<lparr>events := events s @
                   [Cout (''Saving camera trajectory to '' @ filename @ '' ...''),
                    Cout ''trajectory saved!'']\<rparr>)"
    using m h l by (simp add: SaveTrajectoryTUM_def Let_def emit_def)
  with ls sort_lId_head [OF h] show ?thesis by blast
qed

lemma SaveTrajectoryKITTI_returns:
  assumes m: "mSensor s \<noteq> MONOCULAR"
    and kfs: "GetAllKeyFrames (mpMap s) \<noteq> []"
    and wf: "log_well_formed (mpTracker s)"
    and nolost: "\<forall>lost \<in> set (mlbLost (mpTracker s)). \<not> lost"
  shows "\<exists>kf0 \<in> set (GetAllKeyFrames (mpMap s)).
           (\<forall>k \<in> set (GetAllKeyFrames (mpMap s)). mnId kf0 \<le> mnId k) \<and>
           SaveTrajectoryKITTI e filename w s =
             Returned ()
               (write_lines e filename
                  (map (\<lambda>(lit, K, t, lost). KITTI_line_of (GetPoseInverse kf0) lit K)
                     (filter (\<lambda>(lit, K, t, lost). \<not> lost) (log_entries (mpTracker s)))) w,
                s\<lparr>events := events s @
                   [Cout (''Saving camera trajectory to '' @ filename @ '' ...''),
                    Cout ''trajectory saved!'']\<rparr>)"
proof -
  let ?lits = "mlRelativeFramePoses (mpTracker s)" and ?refs = "mlpReferences (mpTracker s)"
    and ?ts = "mlFrameTimes (mpTracker s)" and ?ls = "mlbLost (mpTracker s)"
  from wf have len: "length ?lits = length ?refs" "length ?refs = length ?ts" "length ?ts = length ?ls"
    by (simp_all add: log_well_formed_def)
  from sort_lId_nonempty [OF kfs] obtain kf0 rest where
    h: "sort_lId (GetAllKeyFrames (mpMap s)) = kf0 # rest" by blast
  have all: "filter (\<lambda>(lit, K, t, lost). \<not> lost) (log_entries (mpTracker s)) = log_entries (mpTracker s)"
    using nolost unfolding log_entries_def
    by (auto simp: filter_id_conv dest!: set_zip_rightD)
  have live1: "first_live_ancestor K \<noteq> None"
    if mem: "(lit, K, t) \<in> set (zip ?lits (zip ?refs ?ts))" for lit K t
  proof -
    from mem obtain i where i: "i < length ?lits" "?lits ! i = lit" "?refs ! i = K" "?ts ! i = t"
      using len by (auto simp: set_zip)
    then have "(lit, K, t, ?ls ! i) \<in> set (log_entries (mpTracker s))"
      using len unfolding log_entries_def by (auto simp: set_zip intro!: exI [of _ i])
    moreover have "\<not> ?ls ! i" using nolost i len by (metis nth_mem)
    ultimately show "first_live_ancestor K \<noteq> None"
      using wf unfolding log_well_formed_def by blast
  qed
  then have live: "\<forall>(lit, K, t) \<in> set (zip ?lits (zip ?refs ?ts)). first_live_ancestor K \<noteq> None"
    by blast
  from KITTI_loop_returns [OF len(1) len(2) live] obtain ls where
    l: "SaveTrajectoryKITTI_loop (GetPoseInverse kf0) ?lits ?refs ?ts = Some ls" by blast
  have "ls = map (\<lambda>(lit, K, t). KITTI_line_of (GetPoseInverse kf0) lit K) (zip ?lits (zip ?refs ?ts))"
    using KITTI_loop_lines [OF l] .
  also have "\<dots> = map (\<lambda>(lit, K, t, lost). KITTI_line_of (GetPoseInverse kf0) lit K)
                     (log_entries (mpTracker s))"
    using len unfolding log_entries_def
    by (intro nth_equalityI) (simp_all add: split_beta)
  finally have ls: "ls = map (\<lambda>(lit, K, t, lost). KITTI_line_of (GetPoseInverse kf0) lit K)
                     (filter (\<lambda>(lit, K, t, lost). \<not> lost) (log_entries (mpTracker s)))"
    by (simp add: all)
  have "SaveTrajectoryKITTI e filename w s =
             Returned ()
               (write_lines e filename ls w,
                s\<lparr>events := events s @
                   [Cout (''Saving camera trajectory to '' @ filename @ '' ...''),
                    Cout ''trajectory saved!'']\<rparr>)"
    using m h l by (simp add: SaveTrajectoryKITTI_def Let_def emit_def)
  with ls sort_lId_head [OF h] show ?thesis by blast
qed


lemma chain_example:
  assumes "isBad K1" "GetParent K1 = Some K0" "\<not> isBad K0"
  shows "frame_Tcw Two relativePose K1 = Some (relativePose * mTcp K1 * GetPose K0 * Two)"
  using assms
  by (simp add: frame_Tcw_def traverse_spanning_tree.simps [of _ K1]
      traverse_spanning_tree.simps [of _ K0] mult.assoc)



text \<open>Unfolding the concrete inputs and the matrix operations.\<close>

lemmas ex_defs = ex_stereo_def ex_System_def ex_Map_def ex_log_def ex_Tracking_def ex_K2_def
  ex_K1_def ex_root_def ex_env_def ex_World_def process_start_def

lemmas mat_defs = times_cvMat4_def one_cvMat4_def row_times_def dot4_def col0_def col1_def
  col2_def col3_def translation_def Rwc_of_def twc_of_def t3_def neg3_def mat3_vec_def dot3_def
  rowRange_colRange_0_3_def rowRange_0_3_col_3_def

lemma ex_TUM:
  "SaveTrajectoryTUM ex_env ''traj.txt'' ex_World ex_stereo =
     Returned ()
       (ex_World\<lparr>files := (files ex_World)(''traj.txt'' \<mapsto>
           Text_file [TUM_line 20 (Vec3 0 (- 2) (- 3)) (0, 0, 0, 1),
                      TUM_line 22 (Vec3 0 (- 2) (- 4)) (0, 0, 0, 1)])\<rparr>,
        ex_stereo\<lparr>events := [Cout ''Saving camera trajectory to traj.txt ...'',
                               Cout ''trajectory saved!'']\<rparr>)"
  by (simp add: SaveTrajectoryTUM_def sort_lId_def frame_Tcw_def traverse_spanning_tree.simps
      write_lines_def emit_def ex_defs mat_defs Let_def)

lemma ex_KITTI:
  "SaveTrajectoryKITTI ex_env ''traj.txt'' ex_World ex_stereo =
     Returned ()
       (ex_World\<lparr>files := (files ex_World)(''traj.txt'' \<mapsto>
           Text_file [KITTI_line eye3 (Vec3 0 (- 2) (- 3)),
                      KITTI_line eye3 (Vec3 0 (- 2) (- 3)),
                      KITTI_line eye3 (Vec3 0 (- 2) (- 4))])\<rparr>,
        ex_stereo\<lparr>events := [Cout ''Saving camera trajectory to traj.txt ...'',
                               Cout ''trajectory saved!'']\<rparr>)"
  by (simp add: SaveTrajectoryKITTI_def sort_lId_def frame_Tcw_def traverse_spanning_tree.simps
      write_lines_def emit_def ex_defs mat_defs eye3_def Let_def)


lemma ex_KITTI_all_tracked:
  "SaveTrajectoryKITTI ex_env ''traj.txt'' ex_World ex_all_tracked =
     Returned ()
       (ex_World\<lparr>files := (files ex_World)(''traj.txt'' \<mapsto>
           Text_file [KITTI_line eye3 (Vec3 0 (- 2) (- 3)),
                      KITTI_line eye3 (Vec3 0 (- 2) (- 4))])\<rparr>,
        ex_all_tracked\<lparr>events := [Cout ''Saving camera trajectory to traj.txt ...'',
                               Cout ''trajectory saved!'']\<rparr>)"
  by (simp add: SaveTrajectoryKITTI_def sort_lId_def frame_Tcw_def traverse_spanning_tree.simps
      write_lines_def emit_def ex_all_tracked_def ex_defs mat_defs eye3_def Let_def)

text \<open>
  C1, as amended. The pose the camera-trajectory exports compute for a logged frame with
  reference keyframe \<open>K\<close> is found by walking the parent chain of \<open>K\<close> and multiplying the
  accumulator (the identity at first) on the right by the stored relative-to-parent
  transform of each bad keyframe, in the order of the walk, up to the first keyframe \<open>A\<close>
  that is not bad; the pose is relativePose * (accumulated * pose(A) * Two). When the chain
  has no such keyframe, the walk dereferences the null parent of the root and there is no
  pose. For a bad \<open>K1\<close> whose parent \<open>K0\<close> is not bad, the pose is
  relativePose * Tcp(K1) * pose(K0) * Two. The exported orientation and centre are the
  rotation block and the translation of the inverse of the pose, when the pose is a rigid
  transform. On a map with a keyframe and a well-formed log, each export returns, with \<open>Two\<close>
  the inverse pose of a keyframe of lowest id in the map, and the file (when its stream
  opens) holds the line of every logged frame that is not flagged lost: in the TUM encoding
  for every such log, in the KITTI encoding for the logs in which no frame is flagged lost.
  Matrix entries are real numbers here; rounding is not modelled.
\<close>

theorem camera_pose_recovered_along_parent_chain:
  "frame_Tcw Two relativePose K = recovered_Tcw Two relativePose K \<and>
   (isBad K1 \<and> GetParent K1 = Some K0 \<and> \<not> isBad K0 \<longrightarrow>
      frame_Tcw Two relativePose K1 = Some (relativePose * mTcp K1 * GetPose K0 * Two)) \<and>
   (rigid Tcw \<longrightarrow> transform_of (Rwc_of Tcw) (twc_of Tcw) * Tcw = 1) \<and>
   (mSensor s \<noteq> MONOCULAR \<and> GetAllKeyFrames (mpMap s) \<noteq> [] \<and> log_well_formed (mpTracker s) \<longrightarrow>
      (\<exists>kf0 \<in> set (GetAllKeyFrames (mpMap s)).
         (\<forall>k \<in> set (GetAllKeyFrames (mpMap s)). mnId kf0 \<le> mnId k) \<and>
         SaveTrajectoryTUM e filename w s =
           Returned ()
             (write_lines e filename
                (map (\<lambda>(lit, K, t, lost). TUM_line_of e (GetPoseInverse kf0) lit K t)
                   (filter (\<lambda>(lit, K, t, lost). \<not> lost) (log_entries (mpTracker s)))) w,
              s\<lparr>events := events s @
                 [Cout (''Saving camera trajectory to '' @ filename @ '' ...''),
                  Cout ''trajectory saved!'']\<rparr>))) \<and>
   (mSensor s \<noteq> MONOCULAR \<and> GetAllKeyFrames (mpMap s) \<noteq> [] \<and> log_well_formed (mpTracker s) \<and>
    (\<forall>lost \<in> set (mlbLost (mpTracker s)). \<not> lost) \<longrightarrow>
      (\<exists>kf0 \<in> set (GetAllKeyFrames (mpMap s)).
         (\<forall>k \<in> set (GetAllKeyFrames (mpMap s)). mnId kf0 \<le> mnId k) \<and>
         SaveTrajectoryKITTI e filename w s =
           Returned ()
             (write_lines e filename
                (map (\<lambda>(lit, K, t, lost). KITTI_line_of (GetPoseInverse kf0) lit K)
                   (filter (\<lambda>(lit, K, t, lost). \<not> lost) (log_entries (mpTracker s)))) w,
              s\<lparr>events := events s @
                 [Cout (''Saving camera trajectory to '' @ filename @ '' ...''),
                  Cout ''trajectory saved!'']\<rparr>)))"
  using frame_Tcw_recovered [of Two relativePose K]
    chain_example [of K1 K0 Two relativePose]
    rigid_inverse [of Tcw]
    SaveTrajectoryTUM_returns [of s e filename w]
    SaveTrajectoryKITTI_returns [of s e filename w]
  by blast

theorem camera_pose_recovered_along_parent_chain_witness:
  "isBad ex_K1 \<and> GetParent ex_K1 = Some ex_root \<and> \<not> isBad ex_root \<and>
   frame_Tcw (translation (- 1) 0 0) (translation 0 0 3) ex_K1 = Some (translation 0 2 3) \<and>
   rigid (translation 0 2 3) \<and>
   transform_of (Rwc_of (translation 0 2 3)) (twc_of (translation 0 2 3)) * translation 0 2 3 = 1 \<and>
   mSensor ex_stereo \<noteq> MONOCULAR \<and> GetAllKeyFrames (mpMap ex_stereo) \<noteq> [] \<and>
   log_well_formed (mpTracker ex_stereo) \<and>
   (\<exists>kf0 \<in> set (GetAllKeyFrames (mpMap ex_stereo)).
      SaveTrajectoryTUM ex_env ''traj.txt'' ex_World ex_stereo =
        Returned ()
          (write_lines ex_env ''traj.txt''
             (map (\<lambda>(lit, K, t, lost). TUM_line_of ex_env (GetPoseInverse kf0) lit K t)
                (filter (\<lambda>(lit, K, t, lost). \<not> lost) (log_entries (mpTracker ex_stereo)))) ex_World,
           ex_stereo\<lparr>events := events ex_stereo @
              [Cout (''Saving camera trajectory to '' @ ''traj.txt'' @ '' ...''),
               Cout ''trajectory saved!'']\<rparr>)) \<and>
   SaveTrajectoryTUM ex_env ''traj.txt'' ex_World ex_stereo =
     Returned ()
       (ex_World\<lparr>files := (files ex_World)(''traj.txt'' \<mapsto>
           Text_file [TUM_line 20 (Vec3 0 (- 2) (- 3)) (0, 0, 0, 1),
                      TUM_line 22 (Vec3 0 (- 2) (- 4)) (0, 0, 0, 1)])\<rparr>,
        ex_stereo\<lparr>events := [Cout ''Saving camera trajectory to traj.txt ...'',
                               Cout ''trajectory saved!'']\<rparr>) \<and>
   mSensor ex_all_tracked \<noteq> MONOCULAR \<and> GetAllKeyFrames (mpMap ex_all_tracked) \<noteq> [] \<and>
   log_well_formed (mpTracker ex_all_tracked) \<and>
   \<not> mlbLost (mpTracker ex_all_tracked) ! 0 \<and> \<not> mlbLost (mpTracker ex_all_tracked) ! 1 \<and>
   length (mlbLost (mpTracker ex_all_tracked)) = 2 \<and>
   (\<exists>kf0 \<in> set (GetAllKeyFrames (mpMap ex_all_tracked)).
      SaveTrajectoryKITTI ex_env ''traj.txt'' ex_World ex_all_tracked =
        Returned ()
          (write_lines ex_env ''traj.txt''
             (map (\<lambda>(lit, K, t, lost). KITTI_line_of (GetPoseInverse kf0) lit K)
                (filter (\<lambda>(lit, K, t, lost). \<not> lost) (log_entries (mpTracker ex_all_tracked))))
             ex_World,
           ex_all_tracked\<lparr>events := events ex_all_tracked @
              [Cout (''Saving camera trajectory to '' @ ''traj.txt'' @ '' ...''),
               Cout ''trajectory saved!'']\<rparr>)) \<and>
   SaveTrajectoryKITTI ex_env ''traj.txt'' ex_World ex_all_tracked =
     Returned ()
       (ex_World\<lparr>files := (files ex_World)(''traj.txt'' \<mapsto>
           Text_file [KITTI_line eye3 (Vec3 0 (- 2) (- 3)),
                      KITTI_line eye3 (Vec3 0 (- 2) (- 4))])\<rparr>,
        ex_all_tracked\<lparr>events := [Cout ''Saving camera trajectory to traj.txt ...'',
                               Cout ''trajectory saved!'']\<rparr>)"
proof -
  note t = camera_pose_recovered_along_parent_chain
    [of "translation (- 1) 0 0" "translation 0 0 3" ex_K1 ex_K1 ex_root "translation 0 2 3"
       ex_stereo ex_env "''traj.txt''" ex_World]
  note k = camera_pose_recovered_along_parent_chain
    [of _ _ _ _ _ _ ex_all_tracked ex_env "''traj.txt''" ex_World]
  have c: "isBad ex_K1 \<and> GetParent ex_K1 = Some ex_root \<and> \<not> isBad ex_root"
    by (simp add: ex_K1_def ex_root_def)
  with t have "frame_Tcw (translation (- 1) 0 0) (translation 0 0 3) ex_K1
      = Some (translation 0 0 3 * mTcp ex_K1 * GetPose ex_root * translation (- 1) 0 0)"
    by blast
  then have f: "frame_Tcw (translation (- 1) 0 0) (translation 0 0 3) ex_K1 = Some (translation 0 2 3)"
    by (simp add: ex_K1_def ex_root_def mat_defs)
  have r: "rigid (translation 0 2 3)"
    by (simp add: rigid_def translation_def rowRange_colRange_0_3_def t3_def mat3_mul_def
        mat3_vec_def dot3_def eye3_def)
  with t have i: "transform_of (Rwc_of (translation 0 2 3)) (twc_of (translation 0 2 3))
      * translation 0 2 3 = 1"
    by blast
  have live: "first_live_ancestor ex_K1 \<noteq> None" "first_live_ancestor ex_K2 \<noteq> None"
    by (simp_all add: first_live_ancestor_def parent_chain.simps ex_K1_def ex_K2_def ex_root_def)
  have m: "mSensor ex_stereo \<noteq> MONOCULAR" "GetAllKeyFrames (mpMap ex_stereo) \<noteq> []"
    by (simp_all add: ex_stereo_def ex_System_def ex_Map_def)
  have wf: "log_well_formed (mpTracker ex_stereo)"
    using live
    by (simp add: log_well_formed_def log_entries_def ex_stereo_def ex_log_def ex_Tracking_def)
  from t m wf have x: "\<exists>kf0 \<in> set (GetAllKeyFrames (mpMap ex_stereo)).
      SaveTrajectoryTUM ex_env ''traj.txt'' ex_World ex_stereo =
        Returned ()
          (write_lines ex_env ''traj.txt''
             (map (\<lambda>(lit, K, t, lost). TUM_line_of ex_env (GetPoseInverse kf0) lit K t)
                (filter (\<lambda>(lit, K, t, lost). \<not> lost) (log_entries (mpTracker ex_stereo)))) ex_World,
           ex_stereo\<lparr>events := events ex_stereo @
              [Cout (''Saving camera trajectory to '' @ ''traj.txt'' @ '' ...''),
               Cout ''trajectory saved!'']\<rparr>)"
    by blast
  have m2: "mSensor ex_all_tracked \<noteq> MONOCULAR" "GetAllKeyFrames (mpMap ex_all_tracked) \<noteq> []"
    by (simp_all add: ex_all_tracked_def ex_stereo_def ex_System_def ex_Map_def)
  have wf2: "log_well_formed (mpTracker ex_all_tracked)"
    using live
    by (simp add: log_well_formed_def log_entries_def ex_all_tracked_def ex_stereo_def ex_log_def
        ex_Tracking_def)
  have nl: "\<not> mlbLost (mpTracker ex_all_tracked) ! 0 \<and> \<not> mlbLost (mpTracker ex_all_tracked) ! 1 \<and>
     length (mlbLost (mpTracker ex_all_tracked)) = 2"
    by (simp add: ex_all_tracked_def ex_stereo_def ex_log_def ex_Tracking_def)
  have nolost: "\<forall>lost \<in> set (mlbLost (mpTracker ex_all_tracked)). \<not> lost"
    by (simp add: ex_all_tracked_def ex_stereo_def ex_log_def ex_Tracking_def)
  from k m2 wf2 nolost have y: "\<exists>kf0 \<in> set (GetAllKeyFrames (mpMap ex_all_tracked)).
      SaveTrajectoryKITTI ex_env ''traj.txt'' ex_World ex_all_tracked =
        Returned ()
          (write_lines ex_env ''traj.txt''
             (map (\<lambda>(lit, K, t, lost). KITTI_line_of (GetPoseInverse kf0) lit K)
                (filter (\<lambda>(lit, K, t, lost). \<not> lost) (log_entries (mpTracker ex_all_tracked))))
             ex_World,
           ex_all_tracked\<lparr>events := events ex_all_tracked @
              [Cout (''Saving camera trajectory to '' @ ''traj.txt'' @ '' ...''),
               Cout ''trajectory saved!'']\<rparr>)"
    by blast
  from c f r i m wf x ex_TUM m2 wf2 nl y ex_KITTI_all_tracked show ?thesis by blast
qed

text \<open>
  C1 as stated, with every transform multiplied onto the accumulator from the left, fails
  when two bad keyframes follow each other: for \<open>ex_Q\<close> the code computes quarter turn
  times shift, the left-multiplied accumulator is shift times quarter turn.
\<close>

theorem left_multiplication_counterexample:
  "frame_Tcw 1 1 ex_Q =
     Some (Mat4 (Vec4 0 (- 1) 0 0) (Vec4 1 0 0 1) (Vec4 0 0 1 0) (Vec4 0 0 0 1)) \<and>
   left_recovered_Tcw 1 1 ex_Q =
     Some (Mat4 (Vec4 0 (- 1) 0 1) (Vec4 1 0 0 0) (Vec4 0 0 1 0) (Vec4 0 0 0 1))"
  by (simp add: frame_Tcw_def left_recovered_Tcw_def left_accumulated_def first_live_ancestor_def
      traverse_spanning_tree.simps parent_chain.simps ex_Q_def ex_P_def ex_A_def quarter_turn_def
      mat_defs)

text \<open>
  C2. On a log of three frames, the second flagged lost, \<^verbatim>\<open>SaveTrajectoryKITTI\<close> writes
  three lines, one of them for the lost frame; \<^verbatim>\<open>SaveTrajectoryTUM\<close> on the same log writes
  two.
\<close>

theorem KITTI_export_keeps_lost_frames:
  "mlbLost (mpTracker ex_stereo) = [False, True, False] \<and>
   SaveTrajectoryKITTI ex_env ''traj.txt'' ex_World ex_stereo =
     Returned ()
       (ex_World\<lparr>files := (files ex_World)(''traj.txt'' \<mapsto>
           Text_file [KITTI_line eye3 (Vec3 0 (- 2) (- 3)),
                      KITTI_line eye3 (Vec3 0 (- 2) (- 3)),
                      KITTI_line eye3 (Vec3 0 (- 2) (- 4))])\<rparr>,
        ex_stereo\<lparr>events := [Cout ''Saving camera trajectory to traj.txt ...'',
                               Cout ''trajectory saved!'']\<rparr>) \<and>
   SaveTrajectoryTUM ex_env ''traj.txt'' ex_World ex_stereo =
     Returned ()
       (ex_World\<lparr>files := (files ex_World)(''traj.txt'' \<mapsto>
           Text_file [TUM_line 20 (Vec3 0 (- 2) (- 3)) (0, 0, 0, 1),
                      TUM_line 22 (Vec3 0 (- 2) (- 4)) (0, 0, 0, 1)])\<rparr>,
        ex_stereo\<lparr>events := [Cout ''Saving camera trajectory to traj.txt ...'',
                               Cout ''trajectory saved!'']\<rparr>)"
  using ex_KITTI ex_TUM by (simp add: ex_stereo_def ex_log_def)

lemma SaveTrajectoryTUM_monocular:
  assumes "mSensor s = MONOCULAR"
  shows "SaveTrajectoryTUM e filename w s =
     Returned ()
       (w, s\<lparr>events := events s @ [Cout (''Saving camera trajectory to '' @ filename @ '' ...''),
                Cerr ''ERROR: SaveTrajectoryTUM cannot be used for monocular.'']\<rparr>)"
  using assms by (simp add: SaveTrajectoryTUM_def emit_def)

lemma SaveTrajectoryKITTI_monocular:
  assumes "mSensor s = MONOCULAR"
  shows "SaveTrajectoryKITTI e filename w s =
     Returned ()
       (w, s\<lparr>events := events s @ [Cout (''Saving camera trajectory to '' @ filename @ '' ...''),
                Cerr ''ERROR: SaveTrajectoryKITTI cannot be used for monocular.'']\<rparr>)"
  using assms by (simp add: SaveTrajectoryKITTI_def emit_def)

lemma SaveKeyFrameTrajectoryTUM_lines:
  "SaveKeyFrameTrajectoryTUM e filename w s =
     (write_lines e filename
        (map (keyframe_line e)
           (filter (\<lambda>pKF. \<not> isBad pKF) (sort_key mnId (GetAllKeyFrames (mpMap s))))) w,
      s\<lparr>events := events s @ [Cout (''Saving keyframe trajectory to '' @ filename @ '' ...''),
             Cout ''trajectory saved!'']\<rparr>)"
  by (simp add: SaveKeyFrameTrajectoryTUM_def Let_def KeyFrame_loop_lines sort_lId_def emit_def)

lemma live_keyframes_sorted:
  "sorted (map mnId (filter (\<lambda>pKF. \<not> isBad pKF) (sort_key mnId vpKFs))) \<and>
   set (filter (\<lambda>pKF. \<not> isBad pKF) (sort_key mnId vpKFs)) = {pKF \<in> set vpKFs. \<not> isBad pKF} \<and>
   length (filter (\<lambda>pKF. \<not> isBad pKF) (sort_key mnId vpKFs))
     = length (filter (\<lambda>pKF. \<not> isBad pKF) vpKFs)"
proof (intro conjI)
  show "sorted (map mnId (filter (\<lambda>pKF. \<not> isBad pKF) (sort_key mnId vpKFs)))"
    by (rule sorted_filter) (rule sorted_sort_key)
  show "set (filter (\<lambda>pKF. \<not> isBad pKF) (sort_key mnId vpKFs)) = {pKF \<in> set vpKFs. \<not> isBad pKF}"
    by simp
  show "length (filter (\<lambda>pKF. \<not> isBad pKF) (sort_key mnId vpKFs))
     = length (filter (\<lambda>pKF. \<not> isBad pKF) vpKFs)"
    by (simp add: filter_sort)
qed

text \<open>
  C8. With the monocular sensor both camera-trajectory exports return after two console
  messages, the second the error, and leave the file system as it was. The
  keyframe-trajectory export does not look at the sensor: it writes, for the keyframes that
  are not bad taken in ascending order of id, one line each with timestamp, camera
  centre and the quaternion of the transposed rotation; there are as many lines as
  keyframes that are not bad. (Keyframe ids are taken to be distinct, so that the order
  \<^verbatim>\<open>std::sort\<close> produces is determined.)
\<close>

theorem monocular_trajectory_exports:
  "(mSensor s = MONOCULAR \<longrightarrow>
      SaveTrajectoryTUM e filename w s =
        Returned ()
          (w, s\<lparr>events := events s @ [Cout (''Saving camera trajectory to '' @ filename @ '' ...''),
                   Cerr ''ERROR: SaveTrajectoryTUM cannot be used for monocular.'']\<rparr>) \<and>
      SaveTrajectoryKITTI e filename w s =
        Returned ()
          (w, s\<lparr>events := events s @ [Cout (''Saving camera trajectory to '' @ filename @ '' ...''),
                   Cerr ''ERROR: SaveTrajectoryKITTI cannot be used for monocular.'']\<rparr>)) \<and>
   (distinct (map mnId (GetAllKeyFrames (mpMap s))) \<longrightarrow>
      SaveKeyFrameTrajectoryTUM e filename w s =
        (write_lines e filename
           (map (keyframe_line e)
              (filter (\<lambda>pKF. \<not> isBad pKF) (sort_key mnId (GetAllKeyFrames (mpMap s))))) w,
         s\<lparr>events := events s @ [Cout (''Saving keyframe trajectory to '' @ filename @ '' ...''),
                Cout ''trajectory saved!'']\<rparr>)) \<and>
   sorted (map mnId (filter (\<lambda>pKF. \<not> isBad pKF) (sort_key mnId (GetAllKeyFrames (mpMap s))))) \<and>
   set (filter (\<lambda>pKF. \<not> isBad pKF) (sort_key mnId (GetAllKeyFrames (mpMap s))))
     = {pKF \<in> set (GetAllKeyFrames (mpMap s)). \<not> isBad pKF} \<and>
   length (filter (\<lambda>pKF. \<not> isBad pKF) (sort_key mnId (GetAllKeyFrames (mpMap s))))
     = length (filter (\<lambda>pKF. \<not> isBad pKF) (GetAllKeyFrames (mpMap s)))"
  using SaveTrajectoryTUM_monocular [of s e filename w]
    SaveTrajectoryKITTI_monocular [of s e filename w]
    SaveKeyFrameTrajectoryTUM_lines [of e filename w s]
    live_keyframes_sorted [of "GetAllKeyFrames (mpMap s)"]
  by simp

theorem monocular_trajectory_exports_witness:
  "mSensor (ex_stereo\<lparr>mSensor := MONOCULAR\<rparr>) = MONOCULAR \<and>
   SaveTrajectoryTUM ex_env ''traj.txt'' ex_World (ex_stereo\<lparr>mSensor := MONOCULAR\<rparr>) =
     Returned ()
       (ex_World,
        ex_stereo\<lparr>mSensor := MONOCULAR,
          events := [Cout ''Saving camera trajectory to traj.txt ...'',
                     Cerr ''ERROR: SaveTrajectoryTUM cannot be used for monocular.'']\<rparr>) \<and>
   distinct (map mnId (GetAllKeyFrames (mpMap (ex_stereo\<lparr>mSensor := MONOCULAR\<rparr>)))) \<and>
   SaveKeyFrameTrajectoryTUM ex_env ''kf.txt'' ex_World (ex_stereo\<lparr>mSensor := MONOCULAR\<rparr>) =
     (ex_World\<lparr>files := (files ex_World)(''kf.txt'' \<mapsto>
         Text_file [TUM_line 10 (Vec3 (- 1) 0 0) (0, 0, 0, 1),
                    TUM_line 12 (Vec3 (- 1) (- 2) (- 4)) (0, 0, 0, 1)])\<rparr>,
      ex_stereo\<lparr>mSensor := MONOCULAR,
        events := [Cout ''Saving keyframe trajectory to kf.txt ...'', Cout ''trajectory saved!'']\<rparr>)"
proof -
  let ?s = "ex_stereo\<lparr>mSensor := MONOCULAR\<rparr>"
  have m: "mSensor ?s = MONOCULAR" by simp
  have d: "distinct (map mnId (GetAllKeyFrames (mpMap ?s)))"
    by (simp add: ex_defs)
  note t1 = monocular_trajectory_exports [of ?s ex_env "''traj.txt''" ex_World]
  note t2 = monocular_trajectory_exports [of ?s ex_env "''kf.txt''" ex_World]
  from t1 m have a: "SaveTrajectoryTUM ex_env ''traj.txt'' ex_World ?s =
        Returned ()
          (ex_World, ?s\<lparr>events := events ?s @ [Cout (''Saving camera trajectory to '' @ ''traj.txt'' @ '' ...''),
                   Cerr ''ERROR: SaveTrajectoryTUM cannot be used for monocular.'']\<rparr>)"
    by blast
  from t2 d have b: "SaveKeyFrameTrajectoryTUM ex_env ''kf.txt'' ex_World ?s =
        (write_lines ex_env ''kf.txt''
           (map (keyframe_line ex_env)
              (filter (\<lambda>pKF. \<not> isBad pKF) (sort_key mnId (GetAllKeyFrames (mpMap ?s))))) ex_World,
         ?s\<lparr>events := events ?s @ [Cout (''Saving keyframe trajectory to '' @ ''kf.txt'' @ '' ...''),
                Cout ''trajectory saved!'']\<rparr>)"
    by blast
  show ?thesis
    unfolding a b using d
    by (simp add: ex_defs write_lines_def keyframe_line_def t3_def eye3_def)
qed

end
